theory Spec2Isabelle
  imports Complex_Main
begin

section \<open>GitHub Models provider: catalog cache and cooldown tracker\<close>

text \<open>
  A shallow embedding of \<^verbatim>\<open>openhands/llm/github_models.py\<close>.

  \<^item> A model descriptor is a Python dict with string keys; it is an association list
    looked up with \<open>map_of\<close>. The fields the code reads (\<^verbatim>\<open>id\<close> and
    \<^verbatim>\<open>rate_limit_tier\<close>) hold strings when present; either may be absent.
  \<^item> The catalog is the list of descriptors that \<^verbatim>\<open>response.json()\<close> returns.
  \<^item> The system clock and the remote endpoint are the environment: the \<open>k\<close>-th call of
    \<^verbatim>\<open>time.time()\<close> returns \<open>clock k\<close> and the \<open>k\<close>-th request of \<^verbatim>\<open>httpx.get\<close> has the
    outcome \<open>network k\<close>; two counters record how many calls were made so far. Clock
    readings are real numbers.
  \<^item> An exception that leaves a function is the \<open>Inl\<close> summand of its result; the state
    reached when it was raised is returned with it.
  \<^item> The attributes \<^verbatim>\<open>_cache_ttl\<close> and \<^verbatim>\<open>_failure_timeout\<close> are fields, set to 300 by the
    constructors and never assigned again.

  Not modelled: logging, the request headers and URL, response bodies that decode to
  something other than a list of dicts with string values, and the rounding of
  floating-point clock readings.
\<close>

subsection \<open>Data\<close>

type_synonym descriptor = "(string \<times> string) list"

type_synonym catalog = "descriptor list"

text \<open>The exceptions that can leave the functions below.\<close>

datatype py_error = KeyError string | JSONDecodeError

text \<open>
  The outcome of one request, that is of \<^verbatim>\<open>httpx.get(...)\<close>, \<^verbatim>\<open>raise_for_status()\<close> and
  \<^verbatim>\<open>response.json()\<close> together: \<open>HTTPError\<close> is any \<^verbatim>\<open>httpx.HTTPError\<close> (transport error,
  timeout, non-2xx status), \<open>Malformed\<close> a body that is not JSON, \<open>Body\<close> the decoded
  catalog.
\<close>

datatype response = HTTPError | Malformed | Body catalog

record env =
  clock :: "nat \<Rightarrow> real"
  ticks :: nat
  network :: "nat \<Rightarrow> response"
  fetches :: nat

record GitHubModelsProvider =
  api_key :: string
  base_url :: string
  models_cache :: "catalog option"
  cache_timestamp :: "real option"
  cache_ttl :: real

record GitHubModelsRateLimitHandler =
  provider :: GitHubModelsProvider
  failed_models :: "string \<rightharpoonup> real"
  failure_timeout :: real

subsection \<open>Environment and string primitives\<close>

definition time_time :: "env \<Rightarrow> real \<times> env" where
  "time_time e = (clock e (ticks e), e\<lparr>ticks := Suc (ticks e)\<rparr>)"

definition httpx_get :: "env \<Rightarrow> response \<times> env" where
  "httpx_get e = (network e (fetches e), e\<lparr>fetches := Suc (fetches e)\<rparr>)"

definition startswith :: "string \<Rightarrow> string \<Rightarrow> bool" where
  "startswith s pre = (take (length pre) s = pre)"

definition rstrip :: "string \<Rightarrow> char \<Rightarrow> string" where
  "rstrip s c = rev (dropWhile (\<lambda>x. x = c) (rev s))"

text \<open>\<^verbatim>\<open>model['id']\<close>: the value, or \<^verbatim>\<open>KeyError\<close>.\<close>

definition getitem :: "descriptor \<Rightarrow> string \<Rightarrow> py_error + string" where
  "getitem model k = (case map_of model k of None \<Rightarrow> Inl (KeyError k) | Some v \<Rightarrow> Inr v)"

subsection \<open>GitHubModelsProvider\<close>

definition GitHubModelsProvider_init :: "string \<Rightarrow> string \<Rightarrow> GitHubModelsProvider" where
  "GitHubModelsProvider_init key url =
     \<lparr>api_key = key, base_url = rstrip url CHR ''/'', models_cache = None,
      cache_timestamp = None, cache_ttl = 300\<rparr>"

definition default_base_url :: string where
  "default_base_url = ''https://models.github.ai''"

text \<open>
  The guard of the cached branch: no forced refresh, a snapshot and a timestamp are there,
  and the snapshot is younger than the time-to-live.
\<close>

definition cache_valid :: "bool \<Rightarrow> GitHubModelsProvider \<Rightarrow> real \<Rightarrow> bool" where
  "cache_valid force_refresh p current_time =
     (\<not> force_refresh \<and> models_cache p \<noteq> None \<and>
      (case cache_timestamp p of
         None \<Rightarrow> False
       | Some stamp \<Rightarrow> current_time - stamp < cache_ttl p))"

text \<open>\<^verbatim>\<open>self._models_cache or []\<close>: an absent and an empty snapshot both give the empty list.\<close>

definition cache_or_empty :: "catalog option \<Rightarrow> catalog" where
  "cache_or_empty cache =
     (case cache of None \<Rightarrow> [] | Some cached \<Rightarrow> if cached = [] then [] else cached)"

definition get_available_models ::
  "bool \<Rightarrow> GitHubModelsProvider \<Rightarrow> env \<Rightarrow> (py_error + catalog) \<times> GitHubModelsProvider \<times> env" where
  "get_available_models force_refresh p e =
     (case time_time e of (current_time, e1) \<Rightarrow>
        (case (if cache_valid force_refresh p current_time then models_cache p else None) of
           Some cached \<Rightarrow> (Inr cached, p, e1)
         | None \<Rightarrow>
             (case httpx_get e1 of
                (HTTPError, e2) \<Rightarrow> (Inr (cache_or_empty (models_cache p)), p, e2)
              | (Malformed, e2) \<Rightarrow> (Inl JSONDecodeError, p, e2)
              | (Body models, e2) \<Rightarrow>
                  (Inr models,
                   p\<lparr>models_cache := Some models, cache_timestamp := Some current_time\<rparr>,
                   e2))))"

definition get_models_by_tier ::
  "string \<Rightarrow> GitHubModelsProvider \<Rightarrow> env \<Rightarrow> (py_error + catalog) \<times> GitHubModelsProvider \<times> env" where
  "get_models_by_tier tier p e =
     (case get_available_models False p e of
        (Inl err, p1, e1) \<Rightarrow> (Inl err, p1, e1)
      | (Inr models, p1, e1) \<Rightarrow>
          (Inr (filter (\<lambda>model. map_of model ''rate_limit_tier'' = Some tier) models), p1, e1))"

text \<open>The search loop of \<^verbatim>\<open>get_fallback_models\<close>: the first descriptor with the id.\<close>

fun find_model :: "string \<Rightarrow> catalog \<Rightarrow> py_error + descriptor option" where
  "find_model github_model_id [] = Inr None"
| "find_model github_model_id (model # rest) =
     (case getitem model ''id'' of
        Inl err \<Rightarrow> Inl err
      | Inr i \<Rightarrow> if i = github_model_id then Inr (Some model)
                 else find_model github_model_id rest)"

text \<open>The collecting loop of \<^verbatim>\<open>get_fallback_models\<close>, with its accumulator.\<close>

fun collect_fallbacks :: "string \<Rightarrow> catalog \<Rightarrow> string list \<Rightarrow> py_error + string list" where
  "collect_fallbacks github_model_id [] fallback_models = Inr fallback_models"
| "collect_fallbacks github_model_id (model # rest) fallback_models =
     (case getitem model ''id'' of
        Inl err \<Rightarrow> Inl err
      | Inr i \<Rightarrow>
          if i \<noteq> github_model_id
          then collect_fallbacks github_model_id rest (fallback_models @ [''github/'' @ i])
          else collect_fallbacks github_model_id rest fallback_models)"

definition get_fallback_models ::
  "string \<Rightarrow> GitHubModelsProvider \<Rightarrow> env \<Rightarrow> (py_error + string list) \<times> GitHubModelsProvider \<times> env" where
  "get_fallback_models current_model p e =
     (let github_model_id =
            (if startswith current_model ''github/'' then drop 7 current_model
             else current_model)
      in case get_available_models False p e of
           (Inl err, p1, e1) \<Rightarrow> (Inl err, p1, e1)
         | (Inr models, p1, e1) \<Rightarrow>
             (case find_model github_model_id models of
                Inl err \<Rightarrow> (Inl err, p1, e1)
              | Inr None \<Rightarrow> (Inr [], p1, e1)
              | Inr (Some current_model_info) \<Rightarrow>
                  if current_model_info = [] then (Inr [], p1, e1)
                  else
                    (let tier = (case map_of current_model_info ''rate_limit_tier'' of
                                   None \<Rightarrow> ''low''
                                 | Some t \<Rightarrow> t)
                     in case get_models_by_tier tier p1 e1 of
                          (Inl err, p2, e2) \<Rightarrow> (Inl err, p2, e2)
                        | (Inr tier_models, p2, e2) \<Rightarrow>
                            (collect_fallbacks github_model_id tier_models [], p2, e2))))"

fun litellm_names :: "catalog \<Rightarrow> py_error + string list" where
  "litellm_names [] = Inr []"
| "litellm_names (model # rest) =
     (case getitem model ''id'' of
        Inl err \<Rightarrow> Inl err
      | Inr i \<Rightarrow>
          (case litellm_names rest of
             Inl err \<Rightarrow> Inl err
           | Inr names \<Rightarrow> Inr ((''github/'' @ i) # names)))"

definition get_litellm_model_list ::
  "GitHubModelsProvider \<Rightarrow> env \<Rightarrow> (py_error + string list) \<times> GitHubModelsProvider \<times> env" where
  "get_litellm_model_list p e =
     (case get_available_models False p e of
        (Inl err, p1, e1) \<Rightarrow> (Inl err, p1, e1)
      | (Inr models, p1, e1) \<Rightarrow> (litellm_names models, p1, e1))"

definition is_github_model :: "string \<Rightarrow> bool" where
  "is_github_model model = startswith model ''github/''"

subsection \<open>GitHubModelsRateLimitHandler\<close>

definition GitHubModelsRateLimitHandler_init ::
  "GitHubModelsProvider \<Rightarrow> GitHubModelsRateLimitHandler" where
  "GitHubModelsRateLimitHandler_init p =
     \<lparr>provider = p, failed_models = Map.empty, failure_timeout = 300\<rparr>"

definition is_model_available ::
  "string \<Rightarrow> GitHubModelsRateLimitHandler \<Rightarrow> env \<Rightarrow> bool \<times> GitHubModelsRateLimitHandler \<times> env" where
  "is_model_available model h e =
     (case failed_models h model of
        None \<Rightarrow> (True, h, e)
      | Some failed_at \<Rightarrow>
          (case time_time e of (current_time, e1) \<Rightarrow>
             if current_time - failed_at > failure_timeout h
             then (True, h\<lparr>failed_models := (failed_models h)(model := None)\<rparr>, e1)
             else (False, h, e1)))"

text \<open>
  The same method with its dict operations as the partial operations they are:
  \<^verbatim>\<open>self._failed_models[model]\<close> and \<^verbatim>\<open>del self._failed_models[model]\<close> raise \<^verbatim>\<open>KeyError\<close> on a
  key that is not there.
\<close>

definition dict_getitem :: "(string \<rightharpoonup> real) \<Rightarrow> string \<Rightarrow> py_error + real" where
  "dict_getitem d k = (case d k of None \<Rightarrow> Inl (KeyError k) | Some v \<Rightarrow> Inr v)"

definition dict_delitem :: "(string \<rightharpoonup> real) \<Rightarrow> string \<Rightarrow> py_error + (string \<rightharpoonup> real)" where
  "dict_delitem d k = (case d k of None \<Rightarrow> Inl (KeyError k) | Some v \<Rightarrow> Inr (d(k := None)))"

definition is_model_available_raising ::
  "string \<Rightarrow> GitHubModelsRateLimitHandler \<Rightarrow> env \<Rightarrow>
   (py_error + bool) \<times> GitHubModelsRateLimitHandler \<times> env" where
  "is_model_available_raising model h e =
     (if model \<notin> dom (failed_models h) then (Inr True, h, e)
      else
        (case time_time e of (current_time, e1) \<Rightarrow>
           (case dict_getitem (failed_models h) model of
              Inl err \<Rightarrow> (Inl err, h, e1)
            | Inr failed_at \<Rightarrow>
                if current_time - failed_at > failure_timeout h
                then (case dict_delitem (failed_models h) model of
                        Inl err \<Rightarrow> (Inl err, h, e1)
                      | Inr remaining \<Rightarrow> (Inr True, h\<lparr>failed_models := remaining\<rparr>, e1))
                else (Inr False, h, e1))))"

definition mark_model_failed ::
  "string \<Rightarrow> GitHubModelsRateLimitHandler \<Rightarrow> env \<Rightarrow> GitHubModelsRateLimitHandler \<times> env" where
  "mark_model_failed model h e =
     (case time_time e of (now, e1) \<Rightarrow>
        (h\<lparr>failed_models := (failed_models h)(model \<mapsto> now)\<rparr>, e1))"

text \<open>The loop of \<^verbatim>\<open>get_next_available_model\<close> over the fallback candidates.\<close>

fun first_available ::
  "string list \<Rightarrow> GitHubModelsRateLimitHandler \<Rightarrow> env \<Rightarrow>
   string option \<times> GitHubModelsRateLimitHandler \<times> env" where
  "first_available [] h e = (None, h, e)"
| "first_available (model # rest) h e =
     (case is_model_available model h e of
        (True, h1, e1) \<Rightarrow> (Some model, h1, e1)
      | (False, h1, e1) \<Rightarrow> first_available rest h1 e1)"

definition get_next_available_model ::
  "string \<Rightarrow> GitHubModelsRateLimitHandler \<Rightarrow> env \<Rightarrow>
   (py_error + string option) \<times> GitHubModelsRateLimitHandler \<times> env" where
  "get_next_available_model current_model h e =
     (case get_fallback_models current_model (provider h) e of
        (Inl err, p1, e1) \<Rightarrow> (Inl err, h\<lparr>provider := p1\<rparr>, e1)
      | (Inr fallback_models, p1, e1) \<Rightarrow>
          (case first_available fallback_models (h\<lparr>provider := p1\<rparr>) e1 of
             (found, h2, e2) \<Rightarrow> (Inr found, h2, e2)))"

subsection \<open>Module level: the shared provider\<close>

text \<open>
  The global \<^verbatim>\<open>_github_provider\<close> is passed in and returned. The provider is created
  anew when there is none or when the credential differs.
\<close>

definition get_github_provider ::
  "string \<Rightarrow> GitHubModelsProvider option \<Rightarrow> GitHubModelsProvider" where
  "get_github_provider key g =
     (case g of
        None \<Rightarrow> GitHubModelsProvider_init key default_base_url
      | Some p \<Rightarrow> if api_key p \<noteq> key then GitHubModelsProvider_init key default_base_url
                  else p)"

text \<open>\<^verbatim>\<open>except Exception\<close> turns every error of the body into the empty list.\<close>

definition get_github_models_for_litellm ::
  "string \<Rightarrow> GitHubModelsProvider option \<Rightarrow> env \<Rightarrow>
   (py_error + string list) \<times> GitHubModelsProvider option \<times> env" where
  "get_github_models_for_litellm key g e =
     (case get_litellm_model_list (get_github_provider key g) e of
        (Inl err, p1, e1) \<Rightarrow> (Inr [], Some p1, e1)
      | (Inr names, p1, e1) \<Rightarrow> (Inr names, Some p1, e1))"

subsection \<open>Notions used in the statements\<close>

text \<open>The set of descriptors that \<^verbatim>\<open>get_models_by_tier\<close> returns for a tier.\<close>

definition tier_members :: "string \<Rightarrow> GitHubModelsProvider \<Rightarrow> env \<Rightarrow> descriptor set" where
  "tier_members tier p e =
     (case fst (get_models_by_tier tier p e) of Inl err \<Rightarrow> {} | Inr models \<Rightarrow> set models)"

text \<open>An outcome is an exception when its result is in the left summand.\<close>

definition raises :: "('e + 'a) \<times> 's \<Rightarrow> bool" where
  "raises outcome = isl (fst outcome)"

text \<open>Every descriptor of the catalog has an \<^verbatim>\<open>id\<close>.\<close>

definition has_ids :: "catalog \<Rightarrow> bool" where
  "has_ids ms = list_all (\<lambda>m. map_of m ''id'' \<noteq> None) ms"

text \<open>A request outcome that is a transport failure or a catalog whose descriptors all have an id.\<close>

definition served_with_ids :: "response \<Rightarrow> bool" where
  "served_with_ids r = (case r of HTTPError \<Rightarrow> True | Malformed \<Rightarrow> False | Body ms \<Rightarrow> has_ids ms)"

text \<open>The cached snapshot, if there is one, has an id in every descriptor.\<close>

definition cached_with_ids :: "GitHubModelsProvider \<Rightarrow> bool" where
  "cached_with_ids p = (case models_cache p of None \<Rightarrow> True | Some ms \<Rightarrow> has_ids ms)"

subsection \<open>Concrete scenarios\<close>

text \<open>
  An environment that plays back a list of clock readings and a list of request outcomes;
  past the end of a list the clock shows \<open>0\<close> and every request fails.
\<close>

definition scripted_env :: "real list \<Rightarrow> response list \<Rightarrow> env" where
  "scripted_env ts rs =
     \<lparr>clock = (\<lambda>k. if k < length ts then ts ! k else 0), ticks = 0,
      network = (\<lambda>k. if k < length rs then rs ! k else HTTPError), fetches = 0\<rparr>"

definition fresh_provider :: GitHubModelsProvider where
  "fresh_provider = GitHubModelsProvider_init ''test-token'' default_base_url"

definition fresh_handler :: GitHubModelsRateLimitHandler where
  "fresh_handler = GitHubModelsRateLimitHandler_init fresh_provider"

text \<open>The catalog of the fallback example of the specification and of the unit tests.\<close>

definition example_catalog :: catalog where
  "example_catalog =
     [ [(''id'', ''openai/gpt-4.1''), (''rate_limit_tier'', ''high'')],
      [(''id'', ''meta/llama-3.3-70b-instruct''), (''rate_limit_tier'', ''high'')],
      [(''id'', ''mistral-ai/mistral-large-2411''), (''rate_limit_tier'', ''high'')],
      [(''id'', ''openai/gpt-4o-mini''), (''rate_limit_tier'', ''low'')] ]"

text \<open>A provider that holds the example catalog, fetched when the clock showed 0.\<close>

definition stale_provider :: GitHubModelsProvider where
  "stale_provider = fresh_provider\<lparr>models_cache := Some example_catalog, cache_timestamp := Some 0\<rparr>"

text \<open>
  Two consecutive calls of \<^verbatim>\<open>get_available_models()\<close>, one second apart, on a new provider
  whose first request fails; and ten seconds apart on a provider whose snapshot is valid.
\<close>

definition failing_then_ok_env :: env where
  "failing_then_ok_env = scripted_env [0, 1] [HTTPError, Body example_catalog]"

definition cold_first_call :: "(py_error + catalog) \<times> GitHubModelsProvider \<times> env" where
  "cold_first_call = get_available_models False fresh_provider failing_then_ok_env"

definition cold_second_call :: "(py_error + catalog) \<times> GitHubModelsProvider \<times> env" where
  "cold_second_call =
     get_available_models False (fst (snd cold_first_call)) (snd (snd cold_first_call))"

definition warm_env :: env where
  "warm_env = scripted_env [10, 20] [Body example_catalog]"

definition warm_first_call :: "(py_error + catalog) \<times> GitHubModelsProvider \<times> env" where
  "warm_first_call = get_available_models False stale_provider warm_env"

definition warm_second_call :: "(py_error + catalog) \<times> GitHubModelsProvider \<times> env" where
  "warm_second_call =
     get_available_models False (fst (snd warm_first_call)) (snd (snd warm_first_call))"

text \<open>A catalog whose only descriptor has no \<^verbatim>\<open>rate_limit_tier\<close>, as in the unit tests.\<close>

definition untiered_catalog :: catalog where
  "untiered_catalog = [ [(''id'', ''openai/gpt-4.1'')] ]"

text \<open>
  A handler on which the second model of the example catalog was marked failed at clock 0,
  and the third at clock 200; and one with the first of these entries only.
\<close>

definition both_cooling_handler :: GitHubModelsRateLimitHandler where
  "both_cooling_handler =
     fresh_handler\<lparr>failed_models := [''github/meta/llama-3.3-70b-instruct'' \<mapsto> 0,
                                     ''github/mistral-ai/mistral-large-2411'' \<mapsto> 200]\<rparr>"

definition cooling_handler :: GitHubModelsRateLimitHandler where
  "cooling_handler =
     fresh_handler\<lparr>failed_models := [''github/meta/llama-3.3-70b-instruct'' \<mapsto> 0]\<rparr>"

text \<open>A catalog whose first descriptor has no \<^verbatim>\<open>rate_limit_tier\<close>, next to a model of the low tier.\<close>

definition default_tier_catalog :: catalog where
  "default_tier_catalog =
     [ [(''id'', ''openai/gpt-4.1'')],
      [(''id'', ''openai/gpt-4o-mini''), (''rate_limit_tier'', ''low'')] ]"

text \<open>A catalog whose descriptor has no \<^verbatim>\<open>id\<close>.\<close>

definition nameless_catalog :: catalog where
  "nameless_catalog = [ [(''name'', ''OpenAI GPT-4.1''), (''rate_limit_tier'', ''high'')] ]"

text \<open>
  Catalogs with a descriptor that has no \<^verbatim>\<open>id\<close>: in the tier of the current model after
  it, and before it in another position than the first.
\<close>

definition nameless_in_tier_catalog :: catalog where
  "nameless_in_tier_catalog =
     [ [(''id'', ''openai/gpt-4.1''), (''rate_limit_tier'', ''high'')],
       [(''name'', ''Llama-3.3-70B-Instruct''), (''rate_limit_tier'', ''high'')] ]"

definition nameless_before_catalog :: catalog where
  "nameless_before_catalog =
     [ [(''id'', ''openai/gpt-4o-mini''), (''rate_limit_tier'', ''low'')],
       [(''name'', ''Llama-3.3-70B-Instruct''), (''rate_limit_tier'', ''high'')],
       [(''id'', ''openai/gpt-4.1''), (''rate_limit_tier'', ''high'')] ]"

section \<open>Evaluation of the operations\<close>

lemma scripted_env_sel [simp]:
  "ticks (scripted_env ts rs) = 0"
  "fetches (scripted_env ts rs) = 0"
  "clock (scripted_env ts rs) k = (if k < length ts then ts ! k else 0)"
  "network (scripted_env ts rs) k = (if k < length rs then rs ! k else HTTPError)"
  by (simp_all add: scripted_env_def)

lemma fresh_provider_sel [simp]:
  "models_cache fresh_provider = None"
  "cache_timestamp fresh_provider = None"
  "cache_ttl fresh_provider = 300"
  "api_key fresh_provider = ''test-token''"
  by (simp_all add: fresh_provider_def GitHubModelsProvider_init_def)

lemma fresh_handler_sel [simp]:
  "failure_timeout fresh_handler = 300"
  "failed_models fresh_handler = Map.empty"
  "provider fresh_handler = fresh_provider"
  by (simp_all add: fresh_handler_def GitHubModelsRateLimitHandler_init_def)

lemma stale_provider_sel [simp]:
  "models_cache stale_provider = Some example_catalog"
  "cache_timestamp stale_provider = Some 0"
  "cache_ttl stale_provider = 300"
  by (simp_all add: stale_provider_def)

lemma cooling_handler_sel [simp]:
  "failure_timeout cooling_handler = 300"
  "failed_models cooling_handler = [''github/meta/llama-3.3-70b-instruct'' \<mapsto> 0]"
  "provider cooling_handler = fresh_provider"
  by (simp_all add: cooling_handler_def)

lemma get_available_models_cases:
  "get_available_models force_refresh p e =
     (if cache_valid force_refresh p (clock e (ticks e))
      then (Inr (the (models_cache p)), p, e\<lparr>ticks := Suc (ticks e)\<rparr>)
      else (case network e (fetches e) of
              HTTPError \<Rightarrow>
                (Inr (cache_or_empty (models_cache p)), p,
                 e\<lparr>ticks := Suc (ticks e), fetches := Suc (fetches e)\<rparr>)
            | Malformed \<Rightarrow>
                (Inl JSONDecodeError, p, e\<lparr>ticks := Suc (ticks e), fetches := Suc (fetches e)\<rparr>)
            | Body models \<Rightarrow>
                (Inr models,
                 p\<lparr>models_cache := Some models, cache_timestamp := Some (clock e (ticks e))\<rparr>,
                 e\<lparr>ticks := Suc (ticks e), fetches := Suc (fetches e)\<rparr>)))"
  by (auto simp: get_available_models_def time_time_def httpx_get_def cache_valid_def
           split: option.splits response.splits)

lemma cache_or_empty_eq: "cache_or_empty c = (case c of None \<Rightarrow> [] | Some s \<Rightarrow> s)"
  by (simp add: cache_or_empty_def split: option.split)

lemma get_models_by_tier_eq:
  "get_available_models False p e = (Inr ms, p1, e1) \<Longrightarrow>
   get_models_by_tier t p e =
     (Inr (filter (\<lambda>model. map_of model ''rate_limit_tier'' = Some t) ms), p1, e1)"
  by (simp add: get_models_by_tier_def)

lemma fresh_fetch_twice:
  "get_available_models False fresh_provider (scripted_env (0 # 1 # ts) [Body ms]) =
     (Inr ms, fresh_provider\<lparr>models_cache := Some ms, cache_timestamp := Some 0\<rparr>,
      (scripted_env (0 # 1 # ts) [Body ms])\<lparr>ticks := Suc 0, fetches := Suc 0\<rparr>)"
  "get_available_models False
     (fresh_provider\<lparr>models_cache := Some ms, cache_timestamp := Some 0\<rparr>)
     ((scripted_env (0 # 1 # ts) [Body ms])\<lparr>ticks := Suc 0, fetches := Suc 0\<rparr>) =
     (Inr ms, fresh_provider\<lparr>models_cache := Some ms, cache_timestamp := Some 0\<rparr>,
      (scripted_env (0 # 1 # ts) [Body ms])\<lparr>ticks := Suc (Suc 0), fetches := Suc 0\<rparr>)"
  by (simp_all add: get_available_models_cases cache_valid_def)

lemma find_model_eq:
  "\<forall>m\<in>set ms. map_of m ''id'' \<noteq> None \<Longrightarrow>
   find_model gid ms = Inr (find (\<lambda>m. map_of m ''id'' = Some gid) ms)"
  by (induction ms) (auto simp: getitem_def)

lemma collect_fallbacks_eq:
  "\<forall>m\<in>set ms. map_of m ''id'' \<noteq> None \<Longrightarrow>
   collect_fallbacks gid ms acc =
     Inr (acc @ map (\<lambda>m. ''github/'' @ the (map_of m ''id''))
                  (filter (\<lambda>m. map_of m ''id'' \<noteq> Some gid) ms))"
  by (induction ms arbitrary: acc) (auto simp: getitem_def)

lemma get_fallback_models_found:
  assumes first: "get_available_models False p e = (Inr ms, p1, e1)"
    and second: "get_available_models False p1 e1 = (Inr ms, p2, e2)"
    and ids: "\<forall>m\<in>set ms. map_of m ''id'' \<noteq> None"
    and cur: "find (\<lambda>m. map_of m ''id'' = Some gid) ms = Some info"
  shows "get_fallback_models (''github/'' @ gid) p e =
           (Inr (map (\<lambda>m. ''github/'' @ the (map_of m ''id''))
                   (filter (\<lambda>m. map_of m ''rate_limit_tier''
                                   = Some (case map_of info ''rate_limit_tier'' of
                                             None \<Rightarrow> ''low'' | Some t \<Rightarrow> t)
                                 \<and> map_of m ''id'' \<noteq> Some gid) ms)),
            p2, e2)"
proof -
  let ?tier = "case map_of info ''rate_limit_tier'' of None \<Rightarrow> ''low'' | Some t \<Rightarrow> t"
  let ?tier_models = "filter (\<lambda>m. map_of m ''rate_limit_tier'' = Some ?tier) ms"
  from cur have "map_of info ''id'' = Some gid"
    by (auto simp: find_Some_iff)
  then have ne: "info \<noteq> []" by auto
  have found: "find_model gid ms = Inr (Some info)"
    using find_model_eq[OF ids] cur by simp
  have by_tier: "get_models_by_tier ?tier p1 e1 = (Inr ?tier_models, p2, e2)"
    by (rule get_models_by_tier_eq[OF second])
  have ids': "\<forall>m\<in>set ?tier_models. map_of m ''id'' \<noteq> None"
    using ids by simp
  have coll: "collect_fallbacks gid ?tier_models [] =
      Inr (map (\<lambda>m. ''github/'' @ the (map_of m ''id''))
             (filter (\<lambda>m. map_of m ''rate_limit_tier'' = Some ?tier
                           \<and> map_of m ''id'' \<noteq> Some gid) ms))"
    by (simp only: collect_fallbacks_eq[OF ids'] append_Nil filter_filter)
  show ?thesis
    by (simp add: get_fallback_models_def startswith_def first found ne by_tier coll
          del: filter_filter)
qed

lemma example_fallbacks:
  assumes "get_available_models False p e = (Inr example_catalog, p1, e1)"
    and "get_available_models False p1 e1 = (Inr example_catalog, p2, e2)"
  shows "get_fallback_models ''github/openai/gpt-4.1'' p e =
           (Inr [''github/meta/llama-3.3-70b-instruct'',
                 ''github/mistral-ai/mistral-large-2411''], p2, e2)"
proof -
  have ids: "\<forall>m\<in>set example_catalog. map_of m ''id'' \<noteq> None"
    by (simp add: example_catalog_def)
  have cur: "find (\<lambda>m. map_of m ''id'' = Some ''openai/gpt-4.1'') example_catalog
             = Some (hd example_catalog)"
    by (simp add: example_catalog_def)
  from get_fallback_models_found[OF assms ids cur] show ?thesis
    by (simp add: example_catalog_def)
qed

lemma is_model_available_cases:
  "is_model_available m h e =
     (case failed_models h m of
        None \<Rightarrow> (True, h, e)
      | Some t \<Rightarrow>
          if clock e (ticks e) - t > failure_timeout h
          then (True, h\<lparr>failed_models := (failed_models h)(m := None)\<rparr>,
                e\<lparr>ticks := Suc (ticks e)\<rparr>)
          else (False, h, e\<lparr>ticks := Suc (ticks e)\<rparr>))"
  by (simp add: is_model_available_def time_time_def split: option.split)

lemma get_next_available_model_walk:
  "get_fallback_models cur (provider h) e = (Inr cs, p1, e1) \<Longrightarrow>
   get_next_available_model cur h e =
     (case first_available cs (h\<lparr>provider := p1\<rparr>) e1 of
        (found, h2, e2) \<Rightarrow> (Inr found, h2, e2))"
  by (simp add: get_next_available_model_def)

section \<open>The catalog cache\<close>

text \<open>
  C5. When the request of \<^verbatim>\<open>get_available_models\<close> fails with an \<^verbatim>\<open>httpx.HTTPError\<close>, the call
  returns the previous snapshot if there is one and the empty list otherwise, and the
  provider, so the snapshot and its timestamp, is as it was before the call.
\<close>

theorem fetch_failure_keeps_snapshot:
  assumes "network e (fetches e) = HTTPError"
    and "get_available_models force_refresh p e = (r, p', e')"
  shows "r = Inr (case models_cache p of None \<Rightarrow> [] | Some snapshot \<Rightarrow> snapshot) \<and> p' = p
         \<and> models_cache p' = models_cache p \<and> cache_timestamp p' = cache_timestamp p"
  using assms
  by (auto simp: get_available_models_cases cache_or_empty_eq cache_valid_def
           split: if_splits option.splits)

theorem fetch_failure_keeps_snapshot_witness:
  "network (scripted_env [1000] [HTTPError]) (fetches (scripted_env [1000] [HTTPError])) = HTTPError
   \<and> fst (get_available_models False stale_provider (scripted_env [1000] [HTTPError]))
       = Inr example_catalog
   \<and> fst (snd (get_available_models False stale_provider (scripted_env [1000] [HTTPError])))
       = stale_provider"
proof -
  let ?e = "scripted_env [1000] [HTTPError]"
  have fails: "network ?e (fetches ?e) = HTTPError" by simp
  obtain r p' e' where run: "get_available_models False stale_provider ?e = (r, p', e')"
    by (cases "get_available_models False stale_provider ?e")
  from fetch_failure_keeps_snapshot[OF fails run] run fails show ?thesis by simp
qed

text \<open>
  C6, as stated, fails: two calls one second apart make two requests and return different
  lists when the first request fails, and two calls on a valid snapshot make no request.
\<close>

theorem two_calls_counterexample:
  "clock failing_then_ok_env 1 - clock failing_then_ok_env 0 < cache_ttl fresh_provider
   \<and> fetches failing_then_ok_env = 0
   \<and> fst cold_first_call = Inr []
   \<and> fst cold_second_call = Inr example_catalog
   \<and> fetches (snd (snd cold_second_call)) = 2
   \<and> clock warm_env 1 - clock warm_env 0 < cache_ttl stale_provider
   \<and> fetches warm_env = 0
   \<and> fst warm_first_call = Inr example_catalog
   \<and> fst warm_second_call = Inr example_catalog
   \<and> fetches (snd (snd warm_second_call)) = 0"
proof -
  have c1: "cold_first_call =
      (Inr [], fresh_provider, failing_then_ok_env\<lparr>ticks := Suc 0, fetches := Suc 0\<rparr>)"
    by (simp add: cold_first_call_def failing_then_ok_env_def get_available_models_cases
          cache_valid_def cache_or_empty_def)
  have c2: "fst cold_second_call = Inr example_catalog
            \<and> fetches (snd (snd cold_second_call)) = 2"
    by (simp add: cold_second_call_def c1 get_available_models_cases cache_valid_def)
      (simp add: failing_then_ok_env_def)
  have w1: "warm_first_call = (Inr example_catalog, stale_provider, warm_env\<lparr>ticks := Suc 0\<rparr>)"
    by (simp add: warm_first_call_def warm_env_def get_available_models_cases cache_valid_def)
  have w2: "fst warm_second_call = Inr example_catalog
            \<and> fetches (snd (snd warm_second_call)) = 0"
    by (simp add: warm_second_call_def w1 get_available_models_cases cache_valid_def)
      (simp add: warm_env_def)
  show ?thesis
    using c2 w2 by (simp add: c1 w1) (simp add: failing_then_ok_env_def warm_env_def)
qed

text \<open>
  C6, amended. If the first of two consecutive calls without \<^verbatim>\<open>force_refresh\<close> finds no valid
  snapshot and its request succeeds, and the second call reads the clock less than one
  time-to-live after the first, then exactly one request is made across the two calls and
  the second call returns the snapshot the first returned.
\<close>

theorem one_fetch_within_ttl:
  assumes miss: "\<not> cache_valid False p (clock e (ticks e))"
    and ok: "network e (fetches e) = Body models"
    and near: "clock e (Suc (ticks e)) - clock e (ticks e) < cache_ttl p"
  shows "case get_available_models False p e of (r1, p1, e1) \<Rightarrow>
           (case get_available_models False p1 e1 of (r2, p2, e2) \<Rightarrow>
              r1 = Inr models \<and> r2 = r1 \<and> fetches e2 = Suc (fetches e) \<and> p2 = p1)"
proof -
  let ?p1 = "p\<lparr>models_cache := Some models, cache_timestamp := Some (clock e (ticks e))\<rparr>"
  let ?e1 = "e\<lparr>ticks := Suc (ticks e), fetches := Suc (fetches e)\<rparr>"
  have first: "get_available_models False p e = (Inr models, ?p1, ?e1)"
    using miss ok by (simp add: get_available_models_cases)
  have hit: "cache_valid False ?p1 (clock ?e1 (ticks ?e1))"
    using near by (simp add: cache_valid_def)
  have second: "get_available_models False ?p1 ?e1 = (Inr models, ?p1, ?e1\<lparr>ticks := Suc (ticks ?e1)\<rparr>)"
    by (simp only: get_available_models_cases[of False ?p1 ?e1] hit if_True) simp
  show ?thesis
    by (simp only: first second prod.case) simp
qed

theorem one_fetch_within_ttl_witness:
  "case get_available_models False fresh_provider (scripted_env [0, 1] [Body example_catalog]) of
     (r1, p1, e1) \<Rightarrow>
       (case get_available_models False p1 e1 of (r2, p2, e2) \<Rightarrow>
          r1 = Inr example_catalog \<and> r2 = r1 \<and> fetches e2 = Suc 0 \<and> p2 = p1)"
proof -
  let ?e = "scripted_env [0, 1] [Body example_catalog]"
  have "\<not> cache_valid False fresh_provider (clock ?e (ticks ?e))"
    by (simp add: cache_valid_def)
  moreover have "network ?e (fetches ?e) = Body example_catalog" by simp
  moreover have "clock ?e (Suc (ticks ?e)) - clock ?e (ticks ?e) < cache_ttl fresh_provider"
    by simp
  ultimately show ?thesis
    using one_fetch_within_ttl[of fresh_provider ?e example_catalog] by simp
qed

text \<open>
  C9, as stated, fails on a catalog with a descriptor that has no \<^verbatim>\<open>rate_limit_tier\<close>: the
  descriptor is in the result of no tier.
\<close>

theorem tier_partition_counterexample:
  "fst (get_available_models False fresh_provider (scripted_env [0] [Body untiered_catalog]))
     = Inr untiered_catalog
   \<and> (\<Union>t. tier_members t fresh_provider (scripted_env [0] [Body untiered_catalog])) = {}
   \<and> (\<Union>t. tier_members t fresh_provider (scripted_env [0] [Body untiered_catalog]))
     \<noteq> set untiered_catalog"
  by (simp add: get_available_models_cases cache_valid_def tier_members_def
        get_models_by_tier_def untiered_catalog_def)

text \<open>
  C9, amended. For the catalog that \<^verbatim>\<open>get_available_models\<close> returns, \<^verbatim>\<open>get_models_by_tier(t)\<close>
  returns exactly the descriptors whose \<^verbatim>\<open>rate_limit_tier\<close> is \<open>t\<close>, in catalog order; the
  union of the results over all tiers is the set of descriptors that have a
  \<^verbatim>\<open>rate_limit_tier\<close>, which is the full catalog when every descriptor has one; and the
  results for two distinct tiers are disjoint.
\<close>

theorem tier_partition:
  assumes "get_available_models False p e = (Inr ms, p1, e1)"
  shows "get_models_by_tier t p e =
           (Inr (filter (\<lambda>model. map_of model ''rate_limit_tier'' = Some t) ms), p1, e1)
         \<and> (\<Union>t'. tier_members t' p e) = {m \<in> set ms. map_of m ''rate_limit_tier'' \<noteq> None}
         \<and> ((\<forall>m\<in>set ms. map_of m ''rate_limit_tier'' \<noteq> None) \<longrightarrow>
              (\<Union>t'. tier_members t' p e) = set ms)
         \<and> (\<forall>t1 t2. t1 \<noteq> t2 \<longrightarrow> tier_members t1 p e \<inter> tier_members t2 p e = {})"
proof -
  have tm: "tier_members t' p e = {m \<in> set ms. map_of m ''rate_limit_tier'' = Some t'}" for t'
    by (simp add: tier_members_def get_models_by_tier_eq[OF assms])
  show ?thesis
    by (auto simp: tm get_models_by_tier_eq[OF assms])
qed

theorem tier_partition_witness:
  "fst (get_models_by_tier ''high'' fresh_provider (scripted_env [0] [Body example_catalog]))
     = Inr (take 3 example_catalog)
   \<and> (\<Union>t. tier_members t fresh_provider (scripted_env [0] [Body example_catalog]))
     = set example_catalog
   \<and> tier_members ''high'' fresh_provider (scripted_env [0] [Body example_catalog])
       \<inter> tier_members ''low'' fresh_provider (scripted_env [0] [Body example_catalog]) = {}"
proof -
  let ?e = "scripted_env [0] [Body example_catalog]"
  obtain p1 e1 where run: "get_available_models False fresh_provider ?e = (Inr example_catalog, p1, e1)"
    by (simp add: get_available_models_cases cache_valid_def)
  have tiers: "\<forall>m\<in>set example_catalog. map_of m ''rate_limit_tier'' \<noteq> None"
    by (simp add: example_catalog_def)
  have ne: "''high'' \<noteq> ''low''" by simp
  note tp = tier_partition[OF run, of "''high''"]
  have sel: "filter (\<lambda>model. map_of model ''rate_limit_tier'' = Some ''high'') example_catalog
             = take 3 example_catalog"
    by (simp add: example_catalog_def)
  have a: "fst (get_models_by_tier ''high'' fresh_provider ?e) = Inr (take 3 example_catalog)"
    by (simp only: conjunct1[OF tp] fst_conv sel)
  have b: "(\<Union>t. tier_members t fresh_provider ?e) = set example_catalog"
    by (rule mp[OF conjunct1[OF conjunct2[OF conjunct2[OF tp]]] tiers])
  have c: "tier_members ''high'' fresh_provider ?e
           \<inter> tier_members ''low'' fresh_provider ?e = {}"
    by (rule mp[OF spec[OF spec[OF conjunct2[OF conjunct2[OF conjunct2[OF tp]]]]] ne])
  show ?thesis by (rule conjI[OF a conjI[OF b c]])
qed

text \<open>
  C1. When the catalog read by \<^verbatim>\<open>get_fallback_models\<close> (by its own lookup and by
  \<^verbatim>\<open>get_models_by_tier\<close>) is \<open>ms\<close>, every descriptor has an id, and the descriptor of the
  current model has tier \<open>tier\<close>, the call on the namespaced id returns exactly the ids
  of the descriptors of tier \<open>tier\<close> other than the current model, each prefixed with
  \<^verbatim>\<open>github/\<close>, in catalog order. For the example catalog and \<^verbatim>\<open>github/openai/gpt-4.1\<close> these
  are the llama and the mistral model.
\<close>

theorem get_fallback_models_same_tier:
  assumes first: "get_available_models False p e = (Inr ms, p1, e1)"
    and second: "get_available_models False p1 e1 = (Inr ms, p2, e2)"
    and ids: "\<forall>m\<in>set ms. map_of m ''id'' \<noteq> None"
    and cur: "find (\<lambda>m. map_of m ''id'' = Some gid) ms = Some info"
    and tier: "map_of info ''rate_limit_tier'' = Some tier"
  shows "get_fallback_models (''github/'' @ gid) p e =
           (Inr (map (\<lambda>m. ''github/'' @ the (map_of m ''id''))
                   (filter (\<lambda>m. map_of m ''rate_limit_tier'' = Some tier
                                 \<and> map_of m ''id'' \<noteq> Some gid) ms)),
            p2, e2)
         \<and> (ms = example_catalog \<and> gid = ''openai/gpt-4.1'' \<longrightarrow>
              fst (get_fallback_models ''github/openai/gpt-4.1'' p e) =
                Inr [''github/meta/llama-3.3-70b-instruct'',
                     ''github/mistral-ai/mistral-large-2411''])"
proof -
  note gen = get_fallback_models_found[OF first second ids cur]
  have general: "get_fallback_models (''github/'' @ gid) p e =
           (Inr (map (\<lambda>m. ''github/'' @ the (map_of m ''id''))
                   (filter (\<lambda>m. map_of m ''rate_limit_tier'' = Some tier
                                 \<and> map_of m ''id'' \<noteq> Some gid) ms)),
            p2, e2)"
    using gen by (simp add: tier)
  have particular: "fst (get_fallback_models ''github/openai/gpt-4.1'' p e) =
                Inr [''github/meta/llama-3.3-70b-instruct'',
                     ''github/mistral-ai/mistral-large-2411'']"
    if ex: "ms = example_catalog" and g: "gid = ''openai/gpt-4.1''"
  proof -
    from cur have "info = hd example_catalog"
      by (simp add: ex g example_catalog_def)
    with tier have "tier = ''high''"
      by (simp add: example_catalog_def)
    with general show ?thesis
      by (simp add: ex g example_catalog_def)
  qed
  from general particular show ?thesis by blast
qed

theorem get_fallback_models_same_tier_witness:
  "fst (get_fallback_models ''github/openai/gpt-4.1'' fresh_provider
          (scripted_env [0, 1] [Body example_catalog])) =
     Inr [''github/meta/llama-3.3-70b-instruct'', ''github/mistral-ai/mistral-large-2411'']"
proof -
  have ids: "\<forall>m\<in>set example_catalog. map_of m ''id'' \<noteq> None"
    by (simp add: example_catalog_def)
  have cur: "find (\<lambda>m. map_of m ''id'' = Some ''openai/gpt-4.1'') example_catalog
             = Some (hd example_catalog)"
    by (simp add: example_catalog_def)
  have tier: "map_of (hd example_catalog) ''rate_limit_tier'' = Some ''high''"
    by (simp add: example_catalog_def)
  note inst = get_fallback_models_same_tier[OF fresh_fetch_twice ids cur tier]
  from conjunct2[OF inst] show ?thesis by simp
qed

text \<open>
  C3, as stated, fails: the descriptor of the current model has no \<^verbatim>\<open>rate_limit_tier\<close>, and
  the call returns the model of the low tier, so the default \<^verbatim>\<open>'low'\<close> was used to filter.
\<close>

theorem default_tier_counterexample:
  "map_of (hd default_tier_catalog) ''id'' = Some ''openai/gpt-4.1''
   \<and> map_of (hd default_tier_catalog) ''rate_limit_tier'' = None
   \<and> fst (get_fallback_models ''github/openai/gpt-4.1'' fresh_provider
            (scripted_env [0, 1] [Body default_tier_catalog])) =
       Inr [''github/openai/gpt-4o-mini'']"
proof -
  have ids: "\<forall>m\<in>set default_tier_catalog. map_of m ''id'' \<noteq> None"
    by (simp add: default_tier_catalog_def)
  have cur: "find (\<lambda>m. map_of m ''id'' = Some ''openai/gpt-4.1'') default_tier_catalog
             = Some (hd default_tier_catalog)"
    by (simp add: default_tier_catalog_def)
  from get_fallback_models_found[OF fresh_fetch_twice ids cur]
  show ?thesis
    by (simp add: default_tier_catalog_def)
qed

text \<open>
  C3, amended. When the descriptor of the current model has no \<^verbatim>\<open>rate_limit_tier\<close>,
  \<^verbatim>\<open>get_fallback_models\<close> filters with the default tier \<^verbatim>\<open>'low'\<close>: it returns the prefixed
  ids of the descriptors whose tier is \<^verbatim>\<open>'low'\<close>, other than the current model, in
  catalog order.
\<close>

theorem get_fallback_models_default_tier:
  assumes first: "get_available_models False p e = (Inr ms, p1, e1)"
    and second: "get_available_models False p1 e1 = (Inr ms, p2, e2)"
    and ids: "\<forall>m\<in>set ms. map_of m ''id'' \<noteq> None"
    and cur: "find (\<lambda>m. map_of m ''id'' = Some gid) ms = Some info"
    and untiered: "map_of info ''rate_limit_tier'' = None"
  shows "get_fallback_models (''github/'' @ gid) p e =
           (Inr (map (\<lambda>m. ''github/'' @ the (map_of m ''id''))
                   (filter (\<lambda>m. map_of m ''rate_limit_tier'' = Some ''low''
                                 \<and> map_of m ''id'' \<noteq> Some gid) ms)),
            p2, e2)"
  using get_fallback_models_found[OF first second ids cur] by (simp add: untiered)

theorem get_fallback_models_default_tier_witness:
  "fst (get_fallback_models ''github/openai/gpt-4.1'' fresh_provider
          (scripted_env [0, 1] [Body default_tier_catalog])) =
     Inr [''github/openai/gpt-4o-mini'']"
proof -
  have ids: "\<forall>m\<in>set default_tier_catalog. map_of m ''id'' \<noteq> None"
    by (simp add: default_tier_catalog_def)
  have cur: "find (\<lambda>m. map_of m ''id'' = Some ''openai/gpt-4.1'') default_tier_catalog
             = Some (hd default_tier_catalog)"
    by (simp add: default_tier_catalog_def)
  have untiered: "map_of (hd default_tier_catalog) ''rate_limit_tier'' = None"
    by (simp add: default_tier_catalog_def)
  have low: "map (\<lambda>m. ''github/'' @ the (map_of m ''id''))
               (filter (\<lambda>m. map_of m ''rate_limit_tier'' = Some ''low''
                             \<and> map_of m ''id'' \<noteq> Some ''openai/gpt-4.1'') default_tier_catalog)
             = [''github/openai/gpt-4o-mini'']"
    by (simp add: default_tier_catalog_def)
  from get_fallback_models_default_tier[OF fresh_fetch_twice ids cur untiered]
  have "fst (get_fallback_models ''github/openai/gpt-4.1'' fresh_provider
          (scripted_env [0, 1] [Body default_tier_catalog])) =
     Inr (map (\<lambda>m. ''github/'' @ the (map_of m ''id''))
            (filter (\<lambda>m. map_of m ''rate_limit_tier'' = Some ''low''
                          \<and> map_of m ''id'' \<noteq> Some ''openai/gpt-4.1'') default_tier_catalog))"
    by simp
  then show ?thesis by (simp only: low)
qed

section \<open>The cooldown tracker\<close>

text \<open>
  C7. A model marked failed when the clock shows 0 is reported unavailable when the clock
  shows 100, and available when it shows 301 (with the cooldown window of 300 seconds the
  constructor sets); after the query at 301 the model has no entry in the cooldown map.
\<close>

theorem cooldown_expiry:
  assumes "failure_timeout h = 300"
    and "clock e (ticks e) = 0"
    and "clock e (Suc (ticks e)) = 100"
    and "clock e (Suc (Suc (ticks e))) = 301"
  shows "case mark_model_failed m h e of (h1, e1) \<Rightarrow>
           (case is_model_available m h1 e1 of (a1, h2, e2) \<Rightarrow>
              (case is_model_available m h2 e2 of (a2, h3, e3) \<Rightarrow>
                 \<not> a1 \<and> failed_models h2 m = Some 0 \<and> a2 \<and> failed_models h3 m = None))"
  using assms
  by (simp add: mark_model_failed_def time_time_def is_model_available_cases)

theorem cooldown_expiry_witness:
  "case mark_model_failed ''github/openai/gpt-4.1'' fresh_handler
          (scripted_env [0, 100, 301] []) of (h1, e1) \<Rightarrow>
     (case is_model_available ''github/openai/gpt-4.1'' h1 e1 of (a1, h2, e2) \<Rightarrow>
        (case is_model_available ''github/openai/gpt-4.1'' h2 e2 of (a2, h3, e3) \<Rightarrow>
           \<not> a1 \<and> failed_models h2 ''github/openai/gpt-4.1'' = Some 0 \<and> a2
           \<and> failed_models h3 ''github/openai/gpt-4.1'' = None))"
proof -
  let ?e = "scripted_env [0, 100, 301] []"
  have "failure_timeout fresh_handler = 300" by simp
  moreover have "clock ?e (ticks ?e) = 0" by simp
  moreover have "clock ?e (Suc (ticks ?e)) = 100" by simp
  moreover have "clock ?e (Suc (Suc (ticks ?e))) = 301" by simp
  ultimately show ?thesis by (rule cooldown_expiry)
qed

text \<open>
  C10. \<^verbatim>\<open>is_model_available\<close> changes at most the entry of the queried id, and only by
  removing it when it has expired: the provider and the cooldown window are untouched,
  every entry of another id is as before, no entry is added and no timestamp changes.
\<close>

theorem is_model_available_frame:
  assumes "is_model_available m h e = (r, h', e')"
  shows "provider h' = provider h \<and> failure_timeout h' = failure_timeout h
         \<and> (\<forall>m'. m' \<noteq> m \<longrightarrow> failed_models h' m' = failed_models h m')
         \<and> (failed_models h' m = failed_models h m \<or> failed_models h' m = None)
         \<and> (\<forall>k t. failed_models h' k = Some t \<longrightarrow> failed_models h k = Some t)
         \<and> (failed_models h' m \<noteq> failed_models h m \<longrightarrow>
              (\<exists>t. failed_models h m = Some t \<and> clock e (ticks e) - t > failure_timeout h))"
  using assms
  by (auto simp: is_model_available_cases split: option.splits if_splits)

text \<open>
The frame property at an expired entry, which the query removes.
\<close>

theorem is_model_available_frame_witness:
  "is_model_available ''github/meta/llama-3.3-70b-instruct'' both_cooling_handler
       (scripted_env [301] [])
     = (True,
        both_cooling_handler
          \<lparr>failed_models := [''github/mistral-ai/mistral-large-2411'' \<mapsto> 200]\<rparr>,
        (scripted_env [301] [])\<lparr>ticks := Suc 0\<rparr>)
   \<and> failed_models
         (both_cooling_handler
            \<lparr>failed_models := [''github/mistral-ai/mistral-large-2411'' \<mapsto> 200]\<rparr>)
         ''github/mistral-ai/mistral-large-2411''
       = failed_models both_cooling_handler ''github/mistral-ai/mistral-large-2411''
   \<and> provider
         (both_cooling_handler
            \<lparr>failed_models := [''github/mistral-ai/mistral-large-2411'' \<mapsto> 200]\<rparr>)
       = provider both_cooling_handler
   \<and> failure_timeout
         (both_cooling_handler
            \<lparr>failed_models := [''github/mistral-ai/mistral-large-2411'' \<mapsto> 200]\<rparr>)
       = failure_timeout both_cooling_handler"
proof -
  let ?h' = "both_cooling_handler
               \<lparr>failed_models := [''github/mistral-ai/mistral-large-2411'' \<mapsto> 200]\<rparr>"
  have upd: "(failed_models both_cooling_handler)(''github/meta/llama-3.3-70b-instruct'' := None)
             = [''github/mistral-ai/mistral-large-2411'' \<mapsto> 200]"
    by (rule ext) (simp add: both_cooling_handler_def)
  have run: "is_model_available ''github/meta/llama-3.3-70b-instruct'' both_cooling_handler
               (scripted_env [301] [])
             = (True, ?h', (scripted_env [301] [])\<lparr>ticks := Suc 0\<rparr>)"
  proof -
    have entry: "failed_models both_cooling_handler ''github/meta/llama-3.3-70b-instruct'' = Some 0"
      by (simp add: both_cooling_handler_def)
    have window: "failure_timeout both_cooling_handler = 300"
      by (simp add: both_cooling_handler_def)
    show ?thesis
      by (simp add: is_model_available_cases entry window upd)
  qed
  have other: "''github/mistral-ai/mistral-large-2411'' \<noteq> ''github/meta/llama-3.3-70b-instruct''"
    by simp
  note frame = is_model_available_frame[OF run]
  have a: "failed_models ?h' ''github/mistral-ai/mistral-large-2411''
           = failed_models both_cooling_handler ''github/mistral-ai/mistral-large-2411''"
    by (rule mp[OF spec[OF conjunct1[OF conjunct2[OF conjunct2[OF frame]]]] other])
  have b: "provider ?h' = provider both_cooling_handler"
    by (rule conjunct1[OF frame])
  have c: "failure_timeout ?h' = failure_timeout both_cooling_handler"
    by (rule conjunct1[OF conjunct2[OF frame]])
  show ?thesis by (rule conjI[OF run conjI[OF a conjI[OF b c]]])
qed

lemma first_available_keeps:
  "first_available cs h e = (r, h', e') \<Longrightarrow>
     failure_timeout h' = failure_timeout h \<and> provider h' = provider h \<and> clock e' = clock e
     \<and> (\<forall>k t. failed_models h' k = Some t \<longrightarrow> failed_models h k = Some t)"
proof (induction cs arbitrary: h e)
  case Nil
  then show ?case by simp
next
  case (Cons c cs)
  then show ?case
    by (auto simp: is_model_available_cases split: option.splits if_splits)
qed

lemma first_available_reads:
  "first_available cs h e = (r, h', e') \<Longrightarrow> k < ticks e' - ticks e \<Longrightarrow>
     failed_models h' (cs ! k) = Some t \<Longrightarrow>
     clock e (ticks e + k) - t \<le> failure_timeout h"
proof (induction cs arbitrary: e k)
  case Nil
  then show ?case by simp
next
  case (Cons c cs)
  show ?case
  proof (cases "failed_models h c")
    case None
    with Cons.prems show ?thesis by (simp add: is_model_available_cases)
  next
    case (Some t0)
    show ?thesis
    proof (cases "clock e (ticks e) - t0 > failure_timeout h")
      case True
      with Some Cons.prems show ?thesis
        by (cases k) (auto simp: is_model_available_cases)
    next
      case False
      let ?e1 = "e\<lparr>ticks := Suc (ticks e)\<rparr>"
      from False Some Cons.prems(1) have rec: "first_available cs h ?e1 = (r, h', e')"
        by (simp add: is_model_available_cases)
      show ?thesis
      proof (cases k)
        case 0
        from first_available_keeps[OF rec] Cons.prems(3) 0 Some have "t = t0" by auto
        with False 0 show ?thesis by simp
      next
        case (Suc j)
        with Cons.prems have "j < ticks e' - ticks ?e1" "failed_models h' (cs ! j) = Some t"
          by auto
        from Cons.IH[OF rec this] Suc show ?thesis by simp
      qed
    qed
  qed
qed

lemma first_available_read_count:
  "first_available cs h e = (r, h', e') \<Longrightarrow> ticks e' - ticks e \<le> length cs"
proof (induction cs arbitrary: h e)
  case Nil
  then show ?case by simp
next
  case (Cons c cs)
  then show ?case
    by (fastforce simp: is_model_available_cases split: option.splits if_splits)
qed

lemma first_available_found_absent:
  "first_available cs h e = (Some c, h', e') \<Longrightarrow> failed_models h' c = None"
proof (induction cs arbitrary: h e)
  case Nil
  then show ?case by simp
next
  case (Cons c cs)
  then show ?case
    by (auto simp: is_model_available_cases split: option.splits if_splits)
qed

text \<open>
  C8. A call of \<^verbatim>\<open>is_model_available\<close> that finds an entry older than the cooldown window
  removes it and answers true, and after the call the queried id has an entry only if
  its age at the time of the call is within the window. The same holds for each candidate
  check of \<^verbatim>\<open>get_next_available_model\<close>: the \<open>k\<close>-th clock reading of the walk is the check
  of the \<open>k\<close>-th candidate, whose entry, if it is still there afterwards, was within the
  window at that reading; and the model returned has no entry.
\<close>

theorem read_evicts_expired:
  "(is_model_available m h e = (r, h', e') \<longrightarrow>
      (\<forall>t. failed_models h m = Some t \<and> clock e (ticks e) - t > failure_timeout h
            \<longrightarrow> r \<and> failed_models h' m = None)
      \<and> (\<forall>t. failed_models h' m = Some t \<longrightarrow> clock e (ticks e) - t \<le> failure_timeout h'))
   \<and> (get_fallback_models cur (provider g) d = (Inr cs, p1, d1)
      \<and> get_next_available_model cur g d = (Inr found, g2, d2) \<longrightarrow>
      ticks d2 - ticks d1 \<le> length cs
      \<and> (\<forall>k<ticks d2 - ticks d1. \<forall>t. failed_models g2 (cs ! k) = Some t \<longrightarrow>
            clock d1 (ticks d1 + k) - t \<le> failure_timeout g2)
      \<and> (\<forall>c. found = Some c \<longrightarrow> failed_models g2 c = None))"
proof (intro conjI impI)
  assume "is_model_available m h e = (r, h', e')"
  then show "\<forall>t. failed_models h m = Some t \<and> clock e (ticks e) - t > failure_timeout h
            \<longrightarrow> r \<and> failed_models h' m = None"
    by (auto simp: is_model_available_cases split: option.splits if_splits)
next
  assume "is_model_available m h e = (r, h', e')"
  then show "\<forall>t. failed_models h' m = Some t \<longrightarrow> clock e (ticks e) - t \<le> failure_timeout h'"
    by (auto simp: is_model_available_cases split: option.splits if_splits)
next
  assume a: "get_fallback_models cur (provider g) d = (Inr cs, p1, d1)
      \<and> get_next_available_model cur g d = (Inr found, g2, d2)"
  then have walk: "first_available cs (g\<lparr>provider := p1\<rparr>) d1 = (found, g2, d2)"
    by (auto simp: get_next_available_model_def split: prod.splits)
  from first_available_read_count[OF walk] show "ticks d2 - ticks d1 \<le> length cs" .
next
  assume a: "get_fallback_models cur (provider g) d = (Inr cs, p1, d1)
      \<and> get_next_available_model cur g d = (Inr found, g2, d2)"
  then have walk: "first_available cs (g\<lparr>provider := p1\<rparr>) d1 = (found, g2, d2)"
    by (auto simp: get_next_available_model_def split: prod.splits)
  from first_available_keeps[OF walk] have "failure_timeout g2 = failure_timeout (g\<lparr>provider := p1\<rparr>)"
    by simp
  with first_available_reads[OF walk]
  show "\<forall>k<ticks d2 - ticks d1. \<forall>t. failed_models g2 (cs ! k) = Some t \<longrightarrow>
            clock d1 (ticks d1 + k) - t \<le> failure_timeout g2"
    by simp
next
  assume a: "get_fallback_models cur (provider g) d = (Inr cs, p1, d1)
      \<and> get_next_available_model cur g d = (Inr found, g2, d2)"
  then have walk: "first_available cs (g\<lparr>provider := p1\<rparr>) d1 = (found, g2, d2)"
    by (auto simp: get_next_available_model_def split: prod.splits)
  show "\<forall>c. found = Some c \<longrightarrow> failed_models g2 c = None"
    using first_available_found_absent walk by blast
qed

theorem read_evicts_expired_witness:
  "fst (is_model_available ''github/meta/llama-3.3-70b-instruct'' cooling_handler
          (scripted_env [301] []))
   \<and> failed_models
        (fst (snd (is_model_available ''github/meta/llama-3.3-70b-instruct'' cooling_handler
                     (scripted_env [301] []))))
        ''github/meta/llama-3.3-70b-instruct'' = None
   \<and> fst (get_next_available_model ''github/openai/gpt-4.1'' cooling_handler
            (scripted_env [0, 1, 400] [Body example_catalog]))
       = Inr (Some ''github/meta/llama-3.3-70b-instruct'')
   \<and> failed_models
        (fst (snd (get_next_available_model ''github/openai/gpt-4.1'' cooling_handler
                     (scripted_env [0, 1, 400] [Body example_catalog]))))
        ''github/meta/llama-3.3-70b-instruct'' = None"
proof -
  let ?m = "''github/meta/llama-3.3-70b-instruct''"
  let ?late = "scripted_env [301] []"
  let ?e = "scripted_env [0, 1, 400] [Body example_catalog]"
  let ?p1 = "fresh_provider\<lparr>models_cache := Some example_catalog, cache_timestamp := Some 0\<rparr>"
  let ?e1 = "?e\<lparr>ticks := Suc 0, fetches := Suc 0\<rparr>"
  let ?e2 = "?e\<lparr>ticks := Suc (Suc 0), fetches := Suc 0\<rparr>"
  let ?g2 = "cooling_handler\<lparr>provider := ?p1, failed_models := Map.empty\<rparr>"
  let ?e3 = "?e\<lparr>ticks := Suc (Suc (Suc 0)), fetches := Suc 0\<rparr>"
  have run: "is_model_available ?m cooling_handler ?late
             = (True, cooling_handler\<lparr>failed_models := Map.empty\<rparr>, ?late\<lparr>ticks := Suc 0\<rparr>)"
    by (simp add: is_model_available_cases)
  have first: "get_available_models False (provider cooling_handler) ?e
               = (Inr example_catalog, ?p1, ?e1)"
    using fresh_fetch_twice(1)[of "[400]" example_catalog] by simp
  have second: "get_available_models False ?p1 ?e1 = (Inr example_catalog, ?p1, ?e2)"
    using fresh_fetch_twice(2)[of example_catalog "[400]"] by simp
  have fb: "get_fallback_models ''github/openai/gpt-4.1'' (provider cooling_handler) ?e =
              (Inr [?m, ''github/mistral-ai/mistral-large-2411''], ?p1, ?e2)"
    by (rule example_fallbacks[OF first second])
  have nxt: "get_next_available_model ''github/openai/gpt-4.1'' cooling_handler ?e
             = (Inr (Some ?m), ?g2, ?e3)"
    by (simp add: get_next_available_model_walk[OF fb] is_model_available_cases)
  note inst = read_evicts_expired
    [of ?m cooling_handler ?late True "cooling_handler\<lparr>failed_models := Map.empty\<rparr>"
        "?late\<lparr>ticks := Suc 0\<rparr>" "''github/openai/gpt-4.1''" cooling_handler ?e
        "[?m, ''github/mistral-ai/mistral-large-2411'']" ?p1 ?e2 "Some ?m" ?g2 ?e3]
  from mp[OF conjunct1[OF inst] run]
  have a: "failed_models (cooling_handler\<lparr>failed_models := Map.empty\<rparr>) ?m = None"
    by simp
  from mp[OF conjunct2[OF inst] conjI[OF fb nxt]]
  have b: "failed_models ?g2 ?m = None"
    by simp
  from a b show ?thesis
    by (simp only: run nxt fst_conv snd_conv)
qed

lemma first_available_find:
  "fst (first_available cs h e) =
     map_option snd
       (find (\<lambda>(k, c). fst (is_model_available c h (e\<lparr>ticks := ticks e + (k - n)\<rparr>)))
          (enumerate n cs))"
proof (induction cs arbitrary: e n)
  case Nil
  show ?case by simp
next
  case (Cons c cs)
  show ?case
  proof (cases "fst (is_model_available c h e)")
    case True
    then have "is_model_available c h e = (True, snd (is_model_available c h e))"
      by (cases "is_model_available c h e") simp
    then have "fst (first_available (c # cs) h e) = Some c"
      by (cases "snd (is_model_available c h e)") simp
    with True show ?thesis by simp
  next
    case False
    let ?e1 = "e\<lparr>ticks := Suc (ticks e)\<rparr>"
    from False have step: "is_model_available c h e = (False, h, ?e1)"
      by (auto simp: is_model_available_cases split: option.splits if_splits)
    have same: "(case x of (k, c) \<Rightarrow>
                   fst (is_model_available c h (?e1\<lparr>ticks := ticks ?e1 + (k - Suc n)\<rparr>)))
              = (case x of (k, c) \<Rightarrow>
                   fst (is_model_available c h (e\<lparr>ticks := ticks e + (k - n)\<rparr>)))"
      if "x \<in> set (enumerate (Suc n) cs)" for x
    proof -
      obtain k c' where x: "x = (k, c')" by (cases x)
      with that have "Suc n \<le> k" by (simp add: in_set_enumerate_eq)
      then have "Suc (ticks e) + (k - Suc n) = ticks e + (k - n)" by simp
      then have "?e1\<lparr>ticks := ticks ?e1 + (k - Suc n)\<rparr> = e\<lparr>ticks := ticks e + (k - n)\<rparr>"
        by simp
      then show ?thesis by (simp only: x prod.case)
    qed
    have "fst (first_available (c # cs) h e) = fst (first_available cs h ?e1)"
      by (simp add: step)
    also have "\<dots> = map_option snd
       (find (\<lambda>(k, c). fst (is_model_available c h (?e1\<lparr>ticks := ticks ?e1 + (k - Suc n)\<rparr>)))
          (enumerate (Suc n) cs))"
      by (rule Cons.IH)
    also have "\<dots> = map_option snd
       (find (\<lambda>(k, c). fst (is_model_available c h (e\<lparr>ticks := ticks e + (k - n)\<rparr>)))
          (enumerate (Suc n) cs))"
      using same by (simp cong: find_cong)
    finally show ?thesis using False by simp
  qed
qed

text \<open>
  C2. \<^verbatim>\<open>get_next_available_model\<close> returns the first candidate of the list that
  \<^verbatim>\<open>get_fallback_models\<close> gives for which \<^verbatim>\<open>is_model_available\<close> is true when the walk reaches
  it (the handler unchanged, one clock reading later for each candidate before it), and
  \<open>None\<close> when there is none. With the example catalog, the llama model marked failed and
  still within its cooldown window, the call for \<^verbatim>\<open>github/openai/gpt-4.1\<close> returns the
  mistral model.
\<close>

theorem get_next_available_model_first:
  "(get_fallback_models cur (provider h) e = (Inr cs, p1, e1) \<longrightarrow>
      fst (get_next_available_model cur h e) =
        Inr (map_option snd
               (find (\<lambda>(k, c). fst (is_model_available c (h\<lparr>provider := p1\<rparr>)
                                       (e1\<lparr>ticks := ticks e1 + k\<rparr>)))
                  (enumerate 0 cs))))
   \<and> (get_available_models False (provider h) e = (Inr example_catalog, q1, d1)
      \<and> get_available_models False q1 d1 = (Inr example_catalog, q2, d2)
      \<and> failed_models h ''github/meta/llama-3.3-70b-instruct'' = Some t
      \<and> clock d2 (ticks d2) - t \<le> failure_timeout h
      \<and> failed_models h ''github/mistral-ai/mistral-large-2411'' = None \<longrightarrow>
      fst (get_next_available_model ''github/openai/gpt-4.1'' h e) =
        Inr (Some ''github/mistral-ai/mistral-large-2411''))"
proof (intro conjI impI)
  assume fb: "get_fallback_models cur (provider h) e = (Inr cs, p1, e1)"
  have "fst (get_next_available_model cur h e)
        = Inr (fst (first_available cs (h\<lparr>provider := p1\<rparr>) e1))"
    by (simp add: get_next_available_model_walk[OF fb] split: prod.split)
  also have "fst (first_available cs (h\<lparr>provider := p1\<rparr>) e1) =
     map_option snd
       (find (\<lambda>(k, c). fst (is_model_available c (h\<lparr>provider := p1\<rparr>)
                               (e1\<lparr>ticks := ticks e1 + (k - 0)\<rparr>)))
          (enumerate 0 cs))"
    by (rule first_available_find)
  finally show "fst (get_next_available_model cur h e) =
        Inr (map_option snd
               (find (\<lambda>(k, c). fst (is_model_available c (h\<lparr>provider := p1\<rparr>)
                                       (e1\<lparr>ticks := ticks e1 + k\<rparr>)))
                  (enumerate 0 cs)))"
    by simp
next
  assume a: "get_available_models False (provider h) e = (Inr example_catalog, q1, d1)
      \<and> get_available_models False q1 d1 = (Inr example_catalog, q2, d2)
      \<and> failed_models h ''github/meta/llama-3.3-70b-instruct'' = Some t
      \<and> clock d2 (ticks d2) - t \<le> failure_timeout h
      \<and> failed_models h ''github/mistral-ai/mistral-large-2411'' = None"
  have fb: "get_fallback_models ''github/openai/gpt-4.1'' (provider h) e =
           (Inr [''github/meta/llama-3.3-70b-instruct'',
                 ''github/mistral-ai/mistral-large-2411''], q2, d2)"
    by (rule example_fallbacks[OF conjunct1[OF a] conjunct1[OF conjunct2[OF a]]])
  from a show "fst (get_next_available_model ''github/openai/gpt-4.1'' h e) =
        Inr (Some ''github/mistral-ai/mistral-large-2411'')"
    by (simp add: get_next_available_model_walk[OF fb] is_model_available_cases)
qed

theorem get_next_available_model_first_witness:
  "fst (get_next_available_model ''github/openai/gpt-4.1'' cooling_handler
          (scripted_env [0, 1, 2] [Body example_catalog])) =
     Inr (Some ''github/mistral-ai/mistral-large-2411'')
   \<and> fst (get_next_available_model ''github/openai/gpt-4.1'' cooling_handler
          (scripted_env [0, 1, 2] [Body example_catalog])) =
     Inr (map_option snd
            (find (\<lambda>(k, c). fst (is_model_available c
                       (cooling_handler\<lparr>provider :=
                          fresh_provider\<lparr>models_cache := Some example_catalog,
                                          cache_timestamp := Some 0\<rparr>\<rparr>)
                       ((scripted_env [0, 1, 2] [Body example_catalog])
                          \<lparr>ticks := Suc (Suc 0), fetches := Suc 0\<rparr>
                          \<lparr>ticks := ticks ((scripted_env [0, 1, 2] [Body example_catalog])
                                              \<lparr>ticks := Suc (Suc 0), fetches := Suc 0\<rparr>) + k\<rparr>)))
               (enumerate 0 [''github/meta/llama-3.3-70b-instruct'',
                             ''github/mistral-ai/mistral-large-2411''])))"
proof -
  let ?e = "scripted_env [0, 1, 2] [Body example_catalog]"
  let ?p1 = "fresh_provider\<lparr>models_cache := Some example_catalog, cache_timestamp := Some 0\<rparr>"
  let ?e1 = "?e\<lparr>ticks := Suc 0, fetches := Suc 0\<rparr>"
  let ?e2 = "?e\<lparr>ticks := Suc (Suc 0), fetches := Suc 0\<rparr>"
  have first: "get_available_models False (provider cooling_handler) ?e
               = (Inr example_catalog, ?p1, ?e1)"
    using fresh_fetch_twice(1)[of "[2]" example_catalog] by simp
  have second: "get_available_models False ?p1 ?e1 = (Inr example_catalog, ?p1, ?e2)"
    using fresh_fetch_twice(2)[of example_catalog "[2]"] by simp
  have fb: "get_fallback_models ''github/openai/gpt-4.1'' (provider cooling_handler) ?e =
              (Inr [''github/meta/llama-3.3-70b-instruct'',
                    ''github/mistral-ai/mistral-large-2411''], ?p1, ?e2)"
    by (rule example_fallbacks[OF first second])
  have cooling: "failed_models cooling_handler ''github/meta/llama-3.3-70b-instruct'' = Some 0"
    by simp
  have inside: "clock ?e2 (ticks ?e2) - 0 \<le> failure_timeout cooling_handler"
    by simp
  have other: "failed_models cooling_handler ''github/mistral-ai/mistral-large-2411'' = None"
    by simp
  note inst = get_next_available_model_first
    [of "''github/openai/gpt-4.1''" cooling_handler ?e
        "[''github/meta/llama-3.3-70b-instruct'', ''github/mistral-ai/mistral-large-2411'']"
        ?p1 ?e2 ?p1 ?e1 ?p1 ?e2 0]
  have a: "fst (get_next_available_model ''github/openai/gpt-4.1'' cooling_handler ?e) =
            Inr (Some ''github/mistral-ai/mistral-large-2411'')"
    by (rule mp[OF conjunct2[OF inst]]) (intro conjI first second cooling inside other)
  have b: "fst (get_next_available_model ''github/openai/gpt-4.1'' cooling_handler ?e) =
     Inr (map_option snd
            (find (\<lambda>(k, c). fst (is_model_available c (cooling_handler\<lparr>provider := ?p1\<rparr>)
                                    (?e2\<lparr>ticks := ticks ?e2 + k\<rparr>)))
               (enumerate 0 [''github/meta/llama-3.3-70b-instruct'',
                             ''github/mistral-ai/mistral-large-2411''])))"
    by (rule mp[OF conjunct1[OF inst] fb])
  show ?thesis by (rule conjI[OF a b])
qed

section \<open>Exceptions that leave the operations\<close>

lemma has_ids_iff: "has_ids ms \<longleftrightarrow> (\<forall>m\<in>set ms. map_of m ''id'' \<noteq> None)"
  by (simp add: has_ids_def list_all_iff)

lemma get_available_models_with_ids:
  assumes net: "\<forall>k. served_with_ids (network e k)" and cache: "cached_with_ids p"
  shows "\<exists>ms p' e'. get_available_models force_refresh p e = (Inr ms, p', e') \<and> has_ids ms
           \<and> cached_with_ids p' \<and> network e' = network e"
proof (cases "cache_valid force_refresh p (clock e (ticks e))")
  case True
  then obtain ms where "models_cache p = Some ms"
    by (auto simp: cache_valid_def)
  with True cache show ?thesis
    by (simp add: get_available_models_cases cached_with_ids_def)
next
  case False
  from net have "served_with_ids (network e (fetches e))" by blast
  with False cache show ?thesis
    by (cases "network e (fetches e)")
      (auto simp: get_available_models_cases served_with_ids_def cached_with_ids_def
         cache_or_empty_eq has_ids_def split: option.splits)
qed

lemma litellm_names_with_ids: "has_ids ms \<Longrightarrow> \<exists>names. litellm_names ms = Inr names"
  by (induction ms) (auto simp: has_ids_def getitem_def)

lemma litellm_names_without_id:
  "\<not> has_ids ms \<Longrightarrow> litellm_names ms = Inl (KeyError ''id'')"
  by (induction ms) (auto simp: has_ids_def getitem_def split: sum.splits option.splits)

lemma get_fallback_models_with_ids:
  assumes net: "\<forall>k. served_with_ids (network e k)" and cache: "cached_with_ids p"
  shows "\<not> raises (get_fallback_models current_model p e)"
proof -
  obtain ms p1 e1 where first: "get_available_models False p e = (Inr ms, p1, e1)"
    and ms: "has_ids ms" and c1: "cached_with_ids p1" and n1: "network e1 = network e"
    using get_available_models_with_ids[OF net cache] by blast
  from net n1 have net1: "\<forall>k. served_with_ids (network e1 k)" by simp
  have by_tier: "\<not> raises (get_fallback_models current_model p e)"
  proof -
    let ?gid = "if startswith current_model ''github/'' then drop 7 current_model
                else current_model"
    from ms have found: "find_model ?gid ms = Inr (find (\<lambda>m. map_of m ''id'' = Some ?gid) ms)"
      by (intro find_model_eq) (simp add: has_ids_iff)
    show ?thesis
    proof (cases "find (\<lambda>m. map_of m ''id'' = Some ?gid) ms")
      case None
      with first found show ?thesis
        by (simp add: get_fallback_models_def raises_def)
    next
      case (Some info)
      let ?tier = "case map_of info ''rate_limit_tier'' of None \<Rightarrow> ''low'' | Some t \<Rightarrow> t"
      obtain ms2 p2 e2 where second: "get_available_models False p1 e1 = (Inr ms2, p2, e2)"
        and ms2: "has_ids ms2"
        using get_available_models_with_ids[OF net1 c1] by blast
      let ?tm = "filter (\<lambda>model. map_of model ''rate_limit_tier'' = Some ?tier) ms2"
      from ms2 have "\<forall>m\<in>set ?tm. map_of m ''id'' \<noteq> None"
        by (simp add: has_ids_iff)
      from collect_fallbacks_eq[OF this, of ?gid "[]"]
      have "\<not> isl (collect_fallbacks ?gid ?tm [])" by simp
      with first found Some second show ?thesis
        by (simp add: get_fallback_models_def raises_def get_models_by_tier_def Let_def)
    qed
  qed
  then show ?thesis .
qed

lemma transport_failure_absorbed:
  "network e (fetches e) = HTTPError \<Longrightarrow> \<not> raises (get_available_models force_refresh p e)"
  by (simp add: get_available_models_cases raises_def)

lemma boundary_absorbs:
  "fst (get_github_models_for_litellm key g e) =
     (case fst (get_litellm_model_list (get_github_provider key g) e) of
        Inl err \<Rightarrow> Inr [] | Inr names \<Rightarrow> Inr names)"
  by (simp add: get_github_models_for_litellm_def split: prod.splits sum.splits)

lemma well_formed_no_raise:
  assumes net: "\<forall>k. served_with_ids (network e k)" and cache: "cached_with_ids p"
  shows "\<not> raises (get_available_models force_refresh p e)"
    and "\<not> raises (get_models_by_tier tier p e)"
    and "\<not> raises (get_fallback_models current_model p e)"
    and "\<not> raises (get_litellm_model_list p e)"
    and "provider h = p \<Longrightarrow> \<not> raises (get_next_available_model current_model h e)"
proof -
  from get_available_models_with_ids[OF net cache, of force_refresh]
  show "\<not> raises (get_available_models force_refresh p e)"
    by (auto simp: raises_def)
  from get_available_models_with_ids[OF net cache, of False]
  show "\<not> raises (get_models_by_tier tier p e)"
    by (auto simp: raises_def get_models_by_tier_def)
  show fb: "\<not> raises (get_fallback_models current_model p e)"
    by (rule get_fallback_models_with_ids[OF net cache])
  from get_available_models_with_ids[OF net cache, of False]
  obtain ms' p' e' where "get_available_models False p e = (Inr ms', p', e')" "has_ids ms'"
    by blast
  with litellm_names_with_ids[of ms']
  show "\<not> raises (get_litellm_model_list p e)"
    by (auto simp: raises_def get_litellm_model_list_def)
  assume "provider h = p"
  with fb show "\<not> raises (get_next_available_model current_model h e)"
    by (auto simp: raises_def get_next_available_model_def split: prod.splits sum.splits)
qed

lemma malformed_body_raises:
  assumes "\<not> cache_valid False p (clock e (ticks e))" and "network e (fetches e) = Malformed"
  shows "fst (get_available_models False p e) = Inl JSONDecodeError"
    and "fst (get_models_by_tier tier p e) = Inl JSONDecodeError"
    and "fst (get_fallback_models current_model p e) = Inl JSONDecodeError"
    and "fst (get_litellm_model_list p e) = Inl JSONDecodeError"
    and "provider h = p \<Longrightarrow> fst (get_next_available_model current_model h e) = Inl JSONDecodeError"
  using assms
  by (simp_all add: get_available_models_cases get_models_by_tier_def get_fallback_models_def
        get_litellm_model_list_def get_next_available_model_def)

lemma find_model_reaches_nameless:
  "\<forall>d\<in>set pre. \<exists>i. map_of d ''id'' = Some i \<and> i \<noteq> gid \<Longrightarrow> map_of m ''id'' = None \<Longrightarrow>
   find_model gid (pre @ m # post) = Inl (KeyError ''id'')"
  by (induction pre) (auto simp: getitem_def)

lemma find_model_Some:
  "find_model gid ms = Inr (Some info) \<Longrightarrow> map_of info ''id'' = Some gid"
  by (induction ms) (auto simp: getitem_def split: option.splits if_splits)

lemma collect_fallbacks_nameless:
  "d \<in> set ms \<Longrightarrow> map_of d ''id'' = None \<Longrightarrow>
   collect_fallbacks gid ms acc = Inl (KeyError ''id'')"
  by (induction ms arbitrary: acc) (auto simp: getitem_def split: option.splits)

lemma get_next_propagates:
  "fst (get_fallback_models current_model (provider h) e) = Inl err \<Longrightarrow>
   fst (get_next_available_model current_model h e) = Inl err"
  by (auto simp: get_next_available_model_def split: prod.splits sum.splits)

lemma is_model_available_raising_eq:
  "is_model_available_raising model h e =
     (case is_model_available model h e of (b, h', e') \<Rightarrow> (Inr b, h', e'))"
  by (auto simp: is_model_available_raising_def is_model_available_def dict_getitem_def
        dict_delitem_def time_time_def split: option.splits)

lemma is_github_model_iff: "is_github_model model \<longleftrightarrow> (\<exists>rest. model = ''github/'' @ rest)"
proof
  assume "is_github_model model"
  then have "take (length ''github/'') model = ''github/''"
    by (simp only: is_github_model_def startswith_def)
  then have "model = ''github/'' @ drop (length ''github/'') model"
    by (metis append_take_drop_id)
  then show "\<exists>rest. model = ''github/'' @ rest" ..
next
  assume "\<exists>rest. model = ''github/'' @ rest"
  then show "is_github_model model"
    by (auto simp: is_github_model_def startswith_def)
qed

lemma mark_model_failed_eq:
  "mark_model_failed model h e =
     (h\<lparr>failed_models := (failed_models h)(model \<mapsto> clock e (ticks e))\<rparr>,
      e\<lparr>ticks := Suc (ticks e)\<rparr>)"
  by (simp add: mark_model_failed_def time_time_def)

text \<open>
  C4, as stated, fails: a descriptor without an \<^verbatim>\<open>id\<close> makes \<^verbatim>\<open>get_litellm_model_list\<close> raise
  \<^verbatim>\<open>KeyError\<close>, and a body that is not JSON makes \<^verbatim>\<open>get_available_models\<close> raise the decoding
  error of \<^verbatim>\<open>response.json()\<close>.
\<close>

theorem absorbed_failures_counterexample:
  "fst (get_litellm_model_list fresh_provider (scripted_env [0] [Body nameless_catalog]))
     = Inl (KeyError ''id'')
   \<and> raises (get_litellm_model_list fresh_provider (scripted_env [0] [Body nameless_catalog]))
   \<and> fst (get_available_models False fresh_provider (scripted_env [0] [Malformed]))
     = Inl JSONDecodeError
   \<and> raises (get_available_models False fresh_provider (scripted_env [0] [Malformed]))"
  by (simp add: get_litellm_model_list_def get_available_models_cases cache_valid_def
        raises_def nameless_catalog_def getitem_def)

text \<open>
  C4, amended. A transport failure never leaves \<^verbatim>\<open>get_available_models\<close>.
  \<^verbatim>\<open>get_github_models_for_litellm\<close> never raises: it returns the empty list when
  \<^verbatim>\<open>get_litellm_model_list\<close> raises and the list of names otherwise. When every request
  outcome is a transport failure or a catalog whose descriptors all have an id (and so has
  the cached snapshot), none of \<^verbatim>\<open>get_available_models\<close>, \<^verbatim>\<open>get_models_by_tier\<close>,
  \<^verbatim>\<open>get_fallback_models\<close>, \<^verbatim>\<open>get_litellm_model_list\<close> and \<^verbatim>\<open>get_next_available_model\<close> raises.
  A body that is not JSON, when it is fetched, raises out of all five. A descriptor without
  an id raises \<^verbatim>\<open>KeyError\<close> out of \<^verbatim>\<open>get_litellm_model_list\<close>, and out of \<^verbatim>\<open>get_fallback_models\<close>
  when the lookup reaches it before the current model or when it is in the tier of the
  current model; every exception of \<^verbatim>\<open>get_fallback_models\<close> leaves
  \<^verbatim>\<open>get_next_available_model\<close>. \<^verbatim>\<open>is_model_available\<close> never raises, its subscript and its
  \<^verbatim>\<open>del\<close> being guarded by the membership test; \<^verbatim>\<open>is_github_model\<close> is the prefix test and
  \<^verbatim>\<open>mark_model_failed\<close> stores the clock reading, for every input.
\<close>

theorem absorbed_failures:
  "(network e (fetches e) = HTTPError \<longrightarrow> \<not> raises (get_available_models force_refresh p e))
   \<and> \<not> raises (get_github_models_for_litellm key g e)
   \<and> fst (get_github_models_for_litellm key g e) =
        (case fst (get_litellm_model_list (get_github_provider key g) e) of
           Inl failure \<Rightarrow> Inr [] | Inr names \<Rightarrow> Inr names)
   \<and> ((\<forall>k. served_with_ids (network e k)) \<and> cached_with_ids p \<longrightarrow>
        \<not> raises (get_available_models force_refresh p e)
        \<and> \<not> raises (get_models_by_tier tier p e)
        \<and> \<not> raises (get_fallback_models current_model p e)
        \<and> \<not> raises (get_litellm_model_list p e)
        \<and> (provider h = p \<longrightarrow> \<not> raises (get_next_available_model current_model h e)))
   \<and> (\<not> cache_valid False p (clock e (ticks e)) \<and> network e (fetches e) = Malformed \<longrightarrow>
        fst (get_available_models False p e) = Inl JSONDecodeError
        \<and> fst (get_models_by_tier tier p e) = Inl JSONDecodeError
        \<and> fst (get_fallback_models current_model p e) = Inl JSONDecodeError
        \<and> fst (get_litellm_model_list p e) = Inl JSONDecodeError
        \<and> (provider h = p \<longrightarrow>
             fst (get_next_available_model current_model h e) = Inl JSONDecodeError))
   \<and> (get_available_models False p e = (Inr ms, p1, e1) \<and> \<not> has_ids ms \<longrightarrow>
        fst (get_litellm_model_list p e) = Inl (KeyError ''id''))
   \<and> (gid = (if startswith current_model ''github/'' then drop 7 current_model
               else current_model)
      \<and> get_available_models False p e = (Inr (pre @ m # post), p1, e1)
      \<and> (\<forall>d\<in>set pre. \<exists>i. map_of d ''id'' = Some i \<and> i \<noteq> gid)
      \<and> map_of m ''id'' = None \<longrightarrow>
        fst (get_fallback_models current_model p e) = Inl (KeyError ''id''))
   \<and> (gid = (if startswith current_model ''github/'' then drop 7 current_model
               else current_model)
      \<and> get_available_models False p e = (Inr ms, p1, e1)
      \<and> find_model gid ms = Inr (Some info)
      \<and> get_available_models False p1 e1 = (Inr ms2, p2, e2)
      \<and> d \<in> set ms2
      \<and> map_of d ''rate_limit_tier'' =
          Some (case map_of info ''rate_limit_tier'' of None \<Rightarrow> ''low'' | Some t \<Rightarrow> t)
      \<and> map_of d ''id'' = None \<longrightarrow>
        fst (get_fallback_models current_model p e) = Inl (KeyError ''id''))
   \<and> (fst (get_fallback_models current_model (provider h) e) = Inl err \<longrightarrow>
        fst (get_next_available_model current_model h e) = Inl err)
   \<and> is_model_available_raising model h e =
        (case is_model_available model h e of (b, h', e') \<Rightarrow> (Inr b, h', e'))
   \<and> \<not> raises (is_model_available_raising model h e)
   \<and> (is_github_model model \<longleftrightarrow> (\<exists>rest. model = ''github/'' @ rest))
   \<and> mark_model_failed model h e =
        (h\<lparr>failed_models := (failed_models h)(model \<mapsto> clock e (ticks e))\<rparr>,
         e\<lparr>ticks := Suc (ticks e)\<rparr>)"
proof (intro conjI impI)
  assume "network e (fetches e) = HTTPError"
  then show "\<not> raises (get_available_models force_refresh p e)"
    by (rule transport_failure_absorbed)
next
  show "\<not> raises (get_github_models_for_litellm key g e)"
    by (simp add: raises_def boundary_absorbs split: sum.split)
next
  show "fst (get_github_models_for_litellm key g e) =
        (case fst (get_litellm_model_list (get_github_provider key g) e) of
           Inl failure \<Rightarrow> Inr [] | Inr names \<Rightarrow> Inr names)"
    by (rule boundary_absorbs)
next
  assume a: "(\<forall>k. served_with_ids (network e k)) \<and> cached_with_ids p"
  then show "\<not> raises (get_available_models force_refresh p e)"
    by (intro well_formed_no_raise(1)) simp_all
next
  assume a: "(\<forall>k. served_with_ids (network e k)) \<and> cached_with_ids p"
  then show "\<not> raises (get_models_by_tier tier p e)"
    by (intro well_formed_no_raise(2)) simp_all
next
  assume a: "(\<forall>k. served_with_ids (network e k)) \<and> cached_with_ids p"
  then show "\<not> raises (get_fallback_models current_model p e)"
    by (intro well_formed_no_raise(3)) simp_all
next
  assume a: "(\<forall>k. served_with_ids (network e k)) \<and> cached_with_ids p"
  then show "\<not> raises (get_litellm_model_list p e)"
    by (intro well_formed_no_raise(4)) simp_all
next
  assume a: "(\<forall>k. served_with_ids (network e k)) \<and> cached_with_ids p" and hp: "provider h = p"
  then show "\<not> raises (get_next_available_model current_model h e)"
    by (intro well_formed_no_raise(5)) simp_all
next
  assume a: "\<not> cache_valid False p (clock e (ticks e)) \<and> network e (fetches e) = Malformed"
  then show "fst (get_available_models False p e) = Inl JSONDecodeError"
    by (intro malformed_body_raises(1)) simp_all
next
  assume a: "\<not> cache_valid False p (clock e (ticks e)) \<and> network e (fetches e) = Malformed"
  then show "fst (get_models_by_tier tier p e) = Inl JSONDecodeError"
    by (intro malformed_body_raises(2)) simp_all
next
  assume a: "\<not> cache_valid False p (clock e (ticks e)) \<and> network e (fetches e) = Malformed"
  then show "fst (get_fallback_models current_model p e) = Inl JSONDecodeError"
    by (intro malformed_body_raises(3)) simp_all
next
  assume a: "\<not> cache_valid False p (clock e (ticks e)) \<and> network e (fetches e) = Malformed"
  then show "fst (get_litellm_model_list p e) = Inl JSONDecodeError"
    by (intro malformed_body_raises(4)) simp_all
next
  assume a: "\<not> cache_valid False p (clock e (ticks e)) \<and> network e (fetches e) = Malformed"
    and hp: "provider h = p"
  then show "fst (get_next_available_model current_model h e) = Inl JSONDecodeError"
    by (intro malformed_body_raises(5)) simp_all
next
  assume "get_available_models False p e = (Inr ms, p1, e1) \<and> \<not> has_ids ms"
  then show "fst (get_litellm_model_list p e) = Inl (KeyError ''id'')"
    by (simp add: get_litellm_model_list_def litellm_names_without_id)
next
  assume a: "gid = (if startswith current_model ''github/'' then drop 7 current_model
               else current_model)
      \<and> get_available_models False p e = (Inr (pre @ m # post), p1, e1)
      \<and> (\<forall>d\<in>set pre. \<exists>i. map_of d ''id'' = Some i \<and> i \<noteq> gid)
      \<and> map_of m ''id'' = None"
  note g = conjunct1[OF a]
  note first = conjunct1[OF conjunct2[OF a]]
  note before = conjunct1[OF conjunct2[OF conjunct2[OF a]]]
  note nameless = conjunct2[OF conjunct2[OF conjunct2[OF a]]]
  have reached: "find_model gid (pre @ m # post) = Inl (KeyError ''id'')"
    by (rule find_model_reaches_nameless[OF before nameless])
  show "fst (get_fallback_models current_model p e) = Inl (KeyError ''id'')"
    by (simp add: get_fallback_models_def Let_def g[symmetric] first reached)
next
  assume a: "gid = (if startswith current_model ''github/'' then drop 7 current_model
               else current_model)
      \<and> get_available_models False p e = (Inr ms, p1, e1)
      \<and> find_model gid ms = Inr (Some info)
      \<and> get_available_models False p1 e1 = (Inr ms2, p2, e2)
      \<and> d \<in> set ms2
      \<and> map_of d ''rate_limit_tier'' =
          Some (case map_of info ''rate_limit_tier'' of None \<Rightarrow> ''low'' | Some t \<Rightarrow> t)
      \<and> map_of d ''id'' = None"
  let ?tier = "case map_of info ''rate_limit_tier'' of None \<Rightarrow> ''low'' | Some t \<Rightarrow> t"
  let ?tm = "filter (\<lambda>model. map_of model ''rate_limit_tier'' = Some ?tier) ms2"
  note g = conjunct1[OF a, symmetric]
  note first = conjunct1[OF conjunct2[OF a]]
  note found = conjunct1[OF conjunct2[OF conjunct2[OF a]]]
  note second = conjunct1[OF conjunct2[OF conjunct2[OF conjunct2[OF a]]]]
  note member = conjunct1[OF conjunct2[OF conjunct2[OF conjunct2[OF conjunct2[OF a]]]]]
  note same_tier =
    conjunct1[OF conjunct2[OF conjunct2[OF conjunct2[OF conjunct2[OF conjunct2[OF a]]]]]]
  note nameless =
    conjunct2[OF conjunct2[OF conjunct2[OF conjunct2[OF conjunct2[OF conjunct2[OF a]]]]]]
  from find_model_Some[OF found] have ne: "info \<noteq> []" by auto
  from member same_tier have "d \<in> set ?tm" by simp
  from collect_fallbacks_nameless[OF this nameless]
  have coll: "collect_fallbacks gid ?tm [] = Inl (KeyError ''id'')" .
  have by_tier: "get_models_by_tier ?tier p1 e1 = (Inr ?tm, p2, e2)"
    by (rule get_models_by_tier_eq[OF second])
  show "fst (get_fallback_models current_model p e) = Inl (KeyError ''id'')"
    by (simp add: get_fallback_models_def Let_def g first found ne by_tier coll)
next
  assume "fst (get_fallback_models current_model (provider h) e) = Inl err"
  then show "fst (get_next_available_model current_model h e) = Inl err"
    by (rule get_next_propagates)
next
  show "is_model_available_raising model h e =
        (case is_model_available model h e of (b, h', e') \<Rightarrow> (Inr b, h', e'))"
    by (rule is_model_available_raising_eq)
next
  show "\<not> raises (is_model_available_raising model h e)"
    by (simp add: is_model_available_raising_eq raises_def split: prod.split)
next
  show "is_github_model model \<longleftrightarrow> (\<exists>rest. model = ''github/'' @ rest)"
    by (rule is_github_model_iff)
next
  show "mark_model_failed model h e =
        (h\<lparr>failed_models := (failed_models h)(model \<mapsto> clock e (ticks e))\<rparr>,
         e\<lparr>ticks := Suc (ticks e)\<rparr>)"
    by (rule mark_model_failed_eq)
qed

theorem absorbed_failures_witness:
  "\<not> raises (get_available_models False stale_provider (scripted_env [1000] [HTTPError]))
   \<and> fst (get_github_models_for_litellm ''test-token'' None
            (scripted_env [0] [Body nameless_catalog])) = Inr []
   \<and> \<not> raises (get_available_models False fresh_provider
                  (scripted_env [0, 1, 2] [Body example_catalog]))
   \<and> \<not> raises (get_models_by_tier ''high'' fresh_provider
                  (scripted_env [0, 1, 2] [Body example_catalog]))
   \<and> \<not> raises (get_fallback_models ''github/openai/gpt-4.1'' fresh_provider
                  (scripted_env [0, 1, 2] [Body example_catalog]))
   \<and> \<not> raises (get_litellm_model_list fresh_provider
                  (scripted_env [0, 1, 2] [Body example_catalog]))
   \<and> \<not> raises (get_next_available_model ''github/openai/gpt-4.1'' cooling_handler
                  (scripted_env [0, 1, 2] [Body example_catalog]))
   \<and> fst (get_next_available_model ''github/openai/gpt-4.1'' cooling_handler
            (scripted_env [0] [Malformed])) = Inl JSONDecodeError
   \<and> fst (get_litellm_model_list fresh_provider (scripted_env [0] [Body nameless_catalog]))
       = Inl (KeyError ''id'')
   \<and> fst (get_fallback_models ''github/openai/gpt-4.1'' fresh_provider
            (scripted_env [0, 1] [Body nameless_before_catalog])) = Inl (KeyError ''id'')
   \<and> fst (get_fallback_models ''github/openai/gpt-4.1'' fresh_provider
            (scripted_env [0, 1] [Body nameless_in_tier_catalog])) = Inl (KeyError ''id'')
   \<and> fst (get_next_available_model ''github/openai/gpt-4.1'' cooling_handler
            (scripted_env [0, 1] [Body nameless_in_tier_catalog])) = Inl (KeyError ''id'')"
proof -
  let ?down = "scripted_env [1000] [HTTPError]"
  let ?ok = "scripted_env [0, 1, 2] [Body example_catalog]"
  let ?bad = "scripted_env [0] [Malformed]"
  let ?nameless = "scripted_env [0] [Body nameless_catalog]"
  let ?before = "scripted_env [0, 1] [Body nameless_before_catalog]"
  let ?in_tier = "scripted_env [0, 1] [Body nameless_in_tier_catalog]"
  let ?cur = "''github/openai/gpt-4.1''"
  let ?gid = "''openai/gpt-4.1''"
  let ?mini = "[(''id'', ''openai/gpt-4o-mini''), (''rate_limit_tier'', ''low'')]"
  let ?anon = "[(''name'', ''Llama-3.3-70B-Instruct''), (''rate_limit_tier'', ''high'')]"
  let ?gpt = "[(''id'', ''openai/gpt-4.1''), (''rate_limit_tier'', ''high'')]"
  have gid: "?gid = (if startswith ?cur ''github/'' then drop 7 ?cur else ?cur)"
    by (simp add: startswith_def)

  txt \<open>A transport failure.\<close>
  note T = absorbed_failures[where e = ?down and force_refresh = False and p = stale_provider]
  have down: "network ?down (fetches ?down) = HTTPError" by simp
  have w1: "\<not> raises (get_available_models False stale_provider ?down)"
    by (rule mp[OF T[THEN conjunct1] down])

  txt \<open>A catalog whose descriptor has no id: the list raises, the boundary returns [].\<close>
  note T = absorbed_failures[where e = ?nameless and p = fresh_provider
      and key = "''test-token''" and g = None and ms = nameless_catalog
      and ?p1.0 = "fresh_provider\<lparr>models_cache := Some nameless_catalog,
                                   cache_timestamp := Some 0\<rparr>"
      and ?e1.0 = "?nameless\<lparr>ticks := Suc 0, fetches := Suc 0\<rparr>"]
  have fetched: "get_available_models False fresh_provider ?nameless =
      (Inr nameless_catalog,
       fresh_provider\<lparr>models_cache := Some nameless_catalog, cache_timestamp := Some 0\<rparr>,
       ?nameless\<lparr>ticks := Suc 0, fetches := Suc 0\<rparr>)"
    by (simp add: get_available_models_cases cache_valid_def)
  have no_ids: "\<not> has_ids nameless_catalog"
    by (simp add: has_ids_def nameless_catalog_def)
  have w9: "fst (get_litellm_model_list fresh_provider ?nameless) = Inl (KeyError ''id'')"
    by (rule mp[OF T[THEN conjunct2, THEN conjunct2, THEN conjunct2, THEN conjunct2, THEN conjunct2, THEN conjunct1] conjI[OF fetched no_ids]])
  have new_provider: "get_github_provider ''test-token'' None = fresh_provider"
    by (simp add: get_github_provider_def fresh_provider_def)
  have w2: "fst (get_github_models_for_litellm ''test-token'' None ?nameless) = Inr []"
    by (simp only: T[THEN conjunct2, THEN conjunct2, THEN conjunct1] new_provider w9 sum.case)

  txt \<open>The example catalog: nothing raises.\<close>
  note T = absorbed_failures[where e = ?ok and force_refresh = False and p = fresh_provider
      and tier = "''high''" and current_model = ?cur and h = cooling_handler]
  have ids: "has_ids example_catalog"
    by (simp add: has_ids_def example_catalog_def)
  have served: "\<forall>k. served_with_ids (network ?ok k)"
  proof
    fix k show "served_with_ids (network ?ok k)"
      by (cases k) (simp_all add: served_with_ids_def ids)
  qed
  have cached: "cached_with_ids fresh_provider"
    by (simp add: cached_with_ids_def)
  have hp: "provider cooling_handler = fresh_provider" by simp
  note ok = mp[OF T[THEN conjunct2, THEN conjunct2, THEN conjunct2, THEN conjunct1] conjI[OF served cached]]
  have w3: "\<not> raises (get_available_models False fresh_provider ?ok)"
    by (rule ok[THEN conjunct1])
  have w4: "\<not> raises (get_models_by_tier ''high'' fresh_provider ?ok)"
    by (rule ok[THEN conjunct2, THEN conjunct1])
  have w5: "\<not> raises (get_fallback_models ?cur fresh_provider ?ok)"
    by (rule ok[THEN conjunct2, THEN conjunct2, THEN conjunct1])
  have w6: "\<not> raises (get_litellm_model_list fresh_provider ?ok)"
    by (rule ok[THEN conjunct2, THEN conjunct2, THEN conjunct2, THEN conjunct1])
  have w7: "\<not> raises (get_next_available_model ?cur cooling_handler ?ok)"
    by (rule mp[OF ok[THEN conjunct2, THEN conjunct2, THEN conjunct2, THEN conjunct2] hp])

  txt \<open>A body that is not JSON.\<close>
  note T = absorbed_failures[where e = ?bad and p = fresh_provider
      and current_model = ?cur and h = cooling_handler]
  have miss: "\<not> cache_valid False fresh_provider (clock ?bad (ticks ?bad))"
    by (simp add: cache_valid_def)
  have bad: "network ?bad (fetches ?bad) = Malformed" by simp
  note broken = mp[OF T[THEN conjunct2, THEN conjunct2, THEN conjunct2, THEN conjunct2, THEN conjunct1] conjI[OF miss bad]]
  have w8: "fst (get_next_available_model ?cur cooling_handler ?bad) = Inl JSONDecodeError"
    by (rule mp[OF broken[THEN conjunct2, THEN conjunct2, THEN conjunct2, THEN conjunct2] hp])

  txt \<open>A descriptor without an id that the lookup reaches before the current model.\<close>
  note T = absorbed_failures[where e = ?before and p = fresh_provider
      and current_model = ?cur and gid = ?gid and pre = "[?mini]" and m = ?anon
      and post = "[?gpt]"
      and ?p1.0 = "fresh_provider\<lparr>models_cache := Some nameless_before_catalog,
                                   cache_timestamp := Some 0\<rparr>"
      and ?e1.0 = "?before\<lparr>ticks := Suc 0, fetches := Suc 0\<rparr>"]
  have split: "nameless_before_catalog = [?mini] @ ?anon # [?gpt]"
    by (simp add: nameless_before_catalog_def)
  have read: "get_available_models False fresh_provider ?before =
      (Inr ([?mini] @ ?anon # [?gpt]),
       fresh_provider\<lparr>models_cache := Some nameless_before_catalog, cache_timestamp := Some 0\<rparr>,
       ?before\<lparr>ticks := Suc 0, fetches := Suc 0\<rparr>)"
    using fresh_fetch_twice(1)[of "[]" nameless_before_catalog] by (simp only: split)
  have others: "\<forall>d\<in>set [?mini]. \<exists>i. map_of d ''id'' = Some i \<and> i \<noteq> ?gid"
    by simp
  have anon: "map_of ?anon ''id'' = None" by simp
  have w10: "fst (get_fallback_models ?cur fresh_provider ?before) = Inl (KeyError ''id'')"
    by (rule mp[OF T[THEN conjunct2, THEN conjunct2, THEN conjunct2, THEN conjunct2, THEN conjunct2, THEN conjunct2, THEN conjunct1] conjI[OF gid conjI[OF read conjI[OF others anon]]]])

  txt \<open>A descriptor without an id in the tier of the current model.\<close>
  let ?q = "fresh_provider\<lparr>models_cache := Some nameless_in_tier_catalog,
                            cache_timestamp := Some 0\<rparr>"
  let ?d1 = "?in_tier\<lparr>ticks := Suc 0, fetches := Suc 0\<rparr>"
  let ?d2 = "?in_tier\<lparr>ticks := Suc (Suc 0), fetches := Suc 0\<rparr>"
  note T = absorbed_failures[where e = ?in_tier and p = fresh_provider
      and current_model = ?cur and gid = ?gid and ms = nameless_in_tier_catalog
      and ?p1.0 = ?q and ?e1.0 = ?d1 and info = ?gpt and ?ms2.0 = nameless_in_tier_catalog
      and ?p2.0 = ?q and ?e2.0 = ?d2 and d = ?anon and h = cooling_handler
      and err = "KeyError ''id''"]
  have first: "get_available_models False fresh_provider ?in_tier
               = (Inr nameless_in_tier_catalog, ?q, ?d1)"
    by (rule fresh_fetch_twice(1))
  have second: "get_available_models False ?q ?d1 = (Inr nameless_in_tier_catalog, ?q, ?d2)"
    by (rule fresh_fetch_twice(2))
  have found: "find_model ?gid nameless_in_tier_catalog = Inr (Some ?gpt)"
    by (simp add: nameless_in_tier_catalog_def getitem_def)
  have member: "?anon \<in> set nameless_in_tier_catalog"
    by (simp add: nameless_in_tier_catalog_def)
  have same_tier: "map_of ?anon ''rate_limit_tier'' =
      Some (case map_of ?gpt ''rate_limit_tier'' of None \<Rightarrow> ''low'' | Some t \<Rightarrow> t)"
    by simp
  have w11: "fst (get_fallback_models ?cur fresh_provider ?in_tier) = Inl (KeyError ''id'')"
    by (rule mp[OF T[THEN conjunct2, THEN conjunct2, THEN conjunct2, THEN conjunct2, THEN conjunct2, THEN conjunct2, THEN conjunct2, THEN conjunct1]
          conjI[OF gid conjI[OF first conjI[OF found conjI[OF second
            conjI[OF member conjI[OF same_tier anon]]]]]]])
  have w11': "fst (get_fallback_models ?cur (provider cooling_handler) ?in_tier)
              = Inl (KeyError ''id'')"
    by (simp only: hp w11)
  have w12: "fst (get_next_available_model ?cur cooling_handler ?in_tier) = Inl (KeyError ''id'')"
    by (rule mp[OF T[THEN conjunct2, THEN conjunct2, THEN conjunct2, THEN conjunct2, THEN conjunct2, THEN conjunct2, THEN conjunct2, THEN conjunct2, THEN conjunct1] w11'])

  show ?thesis
    by (intro conjI w1 w2 w3 w4 w5 w6 w7 w8 w9 w10 w11 w12)
qed

end
